theory Spec2Isabelle
  imports Main
begin

section \<open>Data model of the course plugin (src/index.ts)\<close>

text \<open>
  Numbers of the source that hold identifiers, scores, sizes and counters are modelled as
  unbounded integers. A \<open>Date\<close> is its time value (milliseconds since the epoch), an
  \<open>ObjectId\<close> is a natural number, and an optional field \<open>f?: T\<close> is a \<open>T option\<close>
  (\<open>None\<close> is the absent field). Strings are lists of characters.
\<close>

type_synonym ObjectId = nat

type_synonym Date = int

record FileInfo =
  file_id :: string
  name :: string
  fsize :: "int option"
  lastModified :: "Date option"
  etag :: "string option"

record CourseDoc =
  docId :: ObjectId
  domainId :: string
  owner :: int
  maintainer :: "int list option"
  title :: string
  content :: string
  beginAt :: Date
  endAt :: Date
  attend :: int
  pids :: "int list"
  files :: "FileInfo list option"
  assign :: "string list option"
  classes :: "string list option"
  teachers :: "int list option"

record JournalEntry =
  pid :: int
  rid :: ObjectId
  score :: int
  status :: int

text \<open>
  The per-student status document. Its \<open>attend\<close> field is called \<open>attend_s\<close> here,
  since the course document has a field of the same name.
\<close>

record CourseStatusDoc =
  uid :: int
  enroll :: "int option"
  attend_s :: "int option"
  startAt :: "Date option"
  journal :: "JournalEntry list option"

datatype PERM =
    PERM_VIEW_HOMEWORK
  | PERM_ATTEND_HOMEWORK
  | PERM_CREATE_HOMEWORK
  | PERM_EDIT_HOMEWORK
  | PERM_EDIT_HOMEWORK_SELF
  | PERM_VIEW_HOMEWORK_SCOREBOARD
  | PERM_VIEW_HIDDEN_HOMEWORK
  | PERM_VIEW_PROBLEM_HIDDEN

text \<open>The requesting user of a handler: its id and its permission test.\<close>

record User =
  user_id :: int
  hasPerm :: "PERM \<Rightarrow> bool"

text \<open>Every \<open>throw\<close> of the source is a value of this type.\<close>

datatype error =
    Error string
  | ValidationError "string list"
  | PermissionError PERM
  | FileLimitExceededError string
  | FileUploadError
  | NotFoundError
  | CourseNotFoundError
  | ProblemNotFoundError

text \<open>
  The document store: course documents by (domain, course id), status documents by
  (domain, course id, user id).
\<close>

record Store =
  courses :: "string \<times> ObjectId \<rightharpoonup> CourseDoc"
  statuses :: "string \<times> ObjectId \<times> int \<rightharpoonup> CourseStatusDoc"

definition opt_list :: "'a list option \<Rightarrow> 'a list" where
  \<comment> \<open>\<open>xs || []\<close>\<close>
  "opt_list xs = (case xs of None \<Rightarrow> [] | Some ys \<Rightarrow> ys)"

section \<open>CourseModel\<close>

subsection \<open>Phases of a course\<close>

text \<open>
  \<open>isOngoing\<close>, \<open>isNotStarted\<close> and \<open>isDone\<close> read the clock with \<open>new Date()\<close>;
  the instant read is the parameter \<open>now\<close>.
\<close>

definition isOngoing :: "CourseDoc \<Rightarrow> Date \<Rightarrow> bool" where
  "isOngoing cdoc now = (beginAt cdoc \<le> now \<and> now < endAt cdoc)"

definition isNotStarted :: "CourseDoc \<Rightarrow> Date \<Rightarrow> bool" where
  "isNotStarted cdoc now = (now < beginAt cdoc)"

definition isDone :: "CourseDoc \<Rightarrow> Date \<Rightarrow> bool" where
  "isDone cdoc now = (endAt cdoc \<le> now)"

subsection \<open>Store primitives of the host platform\<close>

definition setIfNotStatus_attend ::
  "string \<Rightarrow> ObjectId \<Rightarrow> int \<Rightarrow> Date \<Rightarrow> Store \<Rightarrow> unit + Store" where
  \<comment> \<open>Modelled from the spec: \<open>DocumentModel.setIfNotStatus\<close> belongs to the host platform
     and is not part of the plugin's source. The spec describes it as the conditional
     set-if-absent primitive: the call
     \<open>setIfNotStatus(domainId, TYPE_COURSE, cid, uid, 'attend', 1, 1, {enroll: 1, startAt})\<close>
     succeeds only if no status document with \<open>attend = 1\<close> exists for the pair, and then
     creates or updates the document with \<open>attend = 1\<close>, \<open>enroll = 1\<close> and the start time;
     otherwise it throws. It is one atomic step of the store.\<close>
  "setIfNotStatus_attend did cid u now st =
     (case statuses st (did, cid, u) of
        None \<Rightarrow>
          Inr (st\<lparr>statuses := (statuses st)((did, cid, u) \<mapsto>
            \<lparr>uid = u, enroll = Some 1, attend_s = Some 1, startAt = Some now,
             journal = None\<rparr>)\<rparr>)
      | Some sd \<Rightarrow>
          if attend_s sd = Some 1 then Inl ()
          else Inr (st\<lparr>statuses := (statuses st)((did, cid, u) \<mapsto>
            sd\<lparr>enroll := Some 1, attend_s := Some 1, startAt := Some now\<rparr>)\<rparr>))"

definition inc_attend :: "string \<Rightarrow> ObjectId \<Rightarrow> Store \<Rightarrow> Store" where
  \<comment> \<open>Modelled from the spec: \<open>DocumentModel.inc(domainId, TYPE_COURSE, cid, 'attend', 1)\<close>
     of the host platform, the atomic increment by one of the course's attendance counter;
     a course that does not exist is left absent.\<close>
  "inc_attend did cid st =
     (case courses st (did, cid) of
        None \<Rightarrow> st
      | Some c \<Rightarrow> st\<lparr>courses := (courses st)((did, cid) \<mapsto> c\<lparr>attend := attend c + 1\<rparr>)\<rparr>)"

subsection \<open>CourseModel.attend\<close>

text \<open>
  \<open>attend\<close> awaits the conditional set, turning its failure into
  \<open>Error('Already enrolled in this course')\<close>, and only then awaits the increment.
\<close>

definition attend_set :: "string \<Rightarrow> ObjectId \<Rightarrow> int \<Rightarrow> Date \<Rightarrow> Store \<Rightarrow> error + Store" where
  \<comment> \<open>The \<open>try\<close> block of \<open>attend\<close>.\<close>
  "attend_set did cid u now st =
     (case setIfNotStatus_attend did cid u now st of
        Inl _ \<Rightarrow> Inl (Error ''Already enrolled in this course'')
      | Inr st' \<Rightarrow> Inr st')"

definition attend_model ::
  "string \<Rightarrow> ObjectId \<Rightarrow> int \<Rightarrow> Date \<Rightarrow> Store \<Rightarrow> error option \<times> Store" where
  \<comment> \<open>One whole call of \<open>attend\<close>, nothing else running in between: the error thrown,
     if any, and the store after the call.\<close>
  "attend_model did cid u now st =
     (case attend_set did cid u now st of
        Inl e \<Rightarrow> (Some e, st)
      | Inr st' \<Rightarrow> (None, inc_attend did cid st'))"

text \<open>
  Concurrent calls of \<open>attend\<close> for one (course, user) pair. Each call is suspended at its
  two \<open>await\<close>s, so it takes two atomic steps of the store: the conditional set, then the
  increment. A call is not started, past the conditional set and waiting for the
  increment, returned, or has thrown. A schedule is the order in which the calls (by
  index) take their steps; call \<open>i\<close> reads the clock value \<open>clock i\<close>.
\<close>

datatype call_state = NotStarted | Pending | Returned | Thrown error

fun attend_step ::
  "string \<Rightarrow> ObjectId \<Rightarrow> int \<Rightarrow> (nat \<Rightarrow> Date) \<Rightarrow> nat \<Rightarrow> Store \<times> call_state list
     \<Rightarrow> Store \<times> call_state list" where
  "attend_step did cid u clock i (st, cs) =
     (if i < length cs then
        (case cs ! i of
           NotStarted \<Rightarrow>
             (case attend_set did cid u (clock i) st of
                Inl e \<Rightarrow> (st, cs[i := Thrown e])
              | Inr st' \<Rightarrow> (st', cs[i := Pending]))
         | Pending \<Rightarrow> (inc_attend did cid st, cs[i := Returned])
         | Returned \<Rightarrow> (st, cs)
         | Thrown e \<Rightarrow> (st, cs))
      else (st, cs))"

fun run_schedule ::
  "string \<Rightarrow> ObjectId \<Rightarrow> int \<Rightarrow> (nat \<Rightarrow> Date) \<Rightarrow> nat list \<Rightarrow> Store \<times> call_state list
     \<Rightarrow> Store \<times> call_state list" where
  "run_schedule did cid u clock [] cfg = cfg"
| "run_schedule did cid u clock (i # sched) cfg =
     run_schedule did cid u clock sched (attend_step did cid u clock i cfg)"

section \<open>CourseMainHandler.get\<close>

subsection \<open>Filters of the document store\<close>

text \<open>
  The handler builds a filter for the store. The fields it mentions, the values they can
  hold in a course document, and the three kinds of condition it uses.
\<close>

datatype field = F_maintainer | F_owner | F_teachers | F_assign | F_classes

datatype field_value = Absent | Number int | Numbers "int list" | Strings "string list"

fun value_of :: "CourseDoc \<Rightarrow> field \<Rightarrow> field_value" where
  "value_of cdoc F_owner = Number (owner cdoc)"
| "value_of cdoc F_maintainer =
     (case maintainer cdoc of None \<Rightarrow> Absent | Some xs \<Rightarrow> Numbers xs)"
| "value_of cdoc F_teachers =
     (case teachers cdoc of None \<Rightarrow> Absent | Some xs \<Rightarrow> Numbers xs)"
| "value_of cdoc F_assign =
     (case assign cdoc of None \<Rightarrow> Absent | Some xs \<Rightarrow> Strings xs)"
| "value_of cdoc F_classes =
     (case classes cdoc of None \<Rightarrow> Absent | Some xs \<Rightarrow> Strings xs)"

datatype condition =
    Is field int
  | In field "string list"
  | Size field nat

text \<open>
  How the store evaluates a condition on a document: \<open>{ f: n }\<close> holds of a number equal
  to \<open>n\<close> and of an array containing \<open>n\<close>; \<open>{ f: { $in: gs } }\<close> holds of an array with
  an element among \<open>gs\<close>; \<open>{ f: { $size: k } }\<close> holds of an array of length \<open>k\<close>. None
  of them holds of an absent field.
\<close>

fun matches :: "condition \<Rightarrow> CourseDoc \<Rightarrow> bool" where
  "matches (Is f n) cdoc =
     (case value_of cdoc f of
        Number m \<Rightarrow> m = n
      | Numbers xs \<Rightarrow> n \<in> set xs
      | _ \<Rightarrow> False)"
| "matches (In f gs) cdoc =
     (case value_of cdoc f of
        Strings xs \<Rightarrow> list_ex (\<lambda>x. x \<in> set gs) xs
      | _ \<Rightarrow> False)"
| "matches (Size f k) cdoc =
     (case value_of cdoc f of
        Numbers xs \<Rightarrow> length xs = k
      | Strings xs \<Rightarrow> length xs = k
      | _ \<Rightarrow> False)"

subsection \<open>The access part of the list filter\<close>

text \<open>
  \<open>UserModel.listGroup(domainId, uid)\<close> of the host is the parameter \<open>listGroup\<close>: the
  names of the groups of user \<open>Some uid\<close>, or of all groups of the domain for \<open>None\<close>
  (the handler passes \<open>undefined\<close> for a viewer holding \<open>PERM_VIEW_HIDDEN_HOMEWORK\<close>).
  The \<open>group\<close> parameter of the request (\<open>grp\<close> below) defaults to the empty
  string, which is falsy.
\<close>

definition list_groups :: "User \<Rightarrow> (int option \<Rightarrow> string list) \<Rightarrow> string list" where
  "list_groups user listGroup =
     listGroup (if hasPerm user PERM_VIEW_HIDDEN_HOMEWORK then None else Some (user_id user))"

definition accessConditions :: "User \<Rightarrow> string list \<Rightarrow> string \<Rightarrow> condition list" where
  "accessConditions user groups grp =
     [Is F_maintainer (user_id user),
      Is F_owner (user_id user),
      Is F_teachers (user_id user),
      In F_assign groups,
      In F_classes groups,
      Size F_assign 0]
     @ (if grp \<noteq> [] then [In F_assign [grp], In F_classes [grp]] else [])"

definition access_query ::
  "User \<Rightarrow> (int option \<Rightarrow> string list) \<Rightarrow> string \<Rightarrow> condition list option" where
  \<comment> \<open>\<open>query.$or\<close>: \<open>None\<close> when the handler leaves it out.\<close>
  "access_query user listGroup grp =
     (if \<not> (hasPerm user PERM_VIEW_HIDDEN_HOMEWORK \<and> grp = [])
      then Some (accessConditions user (list_groups user listGroup) grp)
      else None)"

definition matches_or :: "condition list option \<Rightarrow> CourseDoc \<Rightarrow> bool" where
  "matches_or q cdoc = (case q of None \<Rightarrow> True | Some cs \<Rightarrow> list_ex (\<lambda>c. matches c cdoc) cs)"

subsection \<open>The regular expression of the title search\<close>

text \<open>
  The query and the stored title are text, strings of bytes in UTF-8. The handler and the
  store read them as characters, and what they take from the JavaScript runtime and from
  the regex engine of the store is a parameter of the model: \<open>chars_of\<close> gives the
  characters of a text, as Unicode code points; \<open>toLowerCase\<close> is
  \<open>String.prototype.toLowerCase\<close> on them; \<open>same_letter\<close> is the engine's comparison
  of a pattern character with a text character under flag \<open>i\<close>; \<open>line_break\<close> holds
  of the characters after which \<open>^\<close> holds under flag \<open>m\<close>.
\<close>

record Runtime =
  chars_of :: "string \<Rightarrow> nat list"
  toLowerCase :: "nat list \<Rightarrow> nat list"
  same_letter :: "nat \<Rightarrow> nat \<Rightarrow> bool"
  line_break :: "nat \<Rightarrow> bool"

definition js_length :: "nat list \<Rightarrow> nat" where
  \<comment> \<open>\<open>q.length\<close> counts UTF-16 code units: one for a character of the Basic
     Multilingual Plane, two (a surrogate pair) for any other.\<close>
  "js_length cs = sum_list (map (\<lambda>c. if c < 0x10000 then 1 else 2) cs)"

text \<open>
  \<open>escapeRegExp\<close> is lodash's: it puts a backslash before each of the characters
  \<open>\ ^ $ . * + ? ( ) [ ] { } |\<close>.
\<close>

definition backslash :: nat where
  "backslash = 0x5C"

definition caret :: nat where
  "caret = 0x5E"

definition regExpChars :: "nat list" where
  "regExpChars = backslash # caret # map of_char ''$.*+?()[]{}|''"

definition escapeRegExp :: "nat list \<Rightarrow> nat list" where
  "escapeRegExp s = concat (map (\<lambda>c. if c \<in> set regExpChars then [backslash, c] else [c]) s)"

record RegExp =
  source :: "nat list"
  flags :: string

definition title_regex :: "Runtime \<Rightarrow> string \<Rightarrow> RegExp option" where
  \<comment> \<open>\<open>query.title\<close>: \<open>None\<close> when \<open>q\<close> is empty and the handler sets no title filter.\<close>
  "title_regex rt q =
     (let escaped = escapeRegExp (toLowerCase rt (chars_of rt q))
      in if q \<noteq> []
         then Some \<lparr>source = (if js_length (chars_of rt q) \<ge> 2 then escaped
                              else caret # escaped),
                    flags = ''gim''\<rparr>
         else None)"

subsection \<open>Matching a pattern of escaped literals\<close>

text \<open>
  The store evaluates \<open>$regex\<close>. Its semantics is given for the patterns the handler can
  build: a sequence of literal characters, each plain or escaped with a backslash, and
  the assertion \<open>^\<close>. A pattern with any other construct is not parsed (\<open>None\<close>). With
  flag \<open>i\<close> a literal matches the characters that \<open>same_letter\<close> relates to it,
  without it only itself; with flag \<open>m\<close> the assertion \<open>^\<close> holds at the start of the
  text and after every line break, without it only at the start. A test succeeds when
  the pattern matches at some position of the text; \<open>prev\<close> is the character before the
  current position, if any.
\<close>

datatype atom = Bol | Lit nat

fun parse_pattern :: "nat list \<Rightarrow> atom list option" where
  "parse_pattern [] = Some []"
| "parse_pattern (c # cs) =
     (if c = backslash then
        (case cs of
           [] \<Rightarrow> None
         | d # ds \<Rightarrow>
             if d \<in> set regExpChars then map_option ((#) (Lit d)) (parse_pattern ds)
             else None)
      else if c = caret then map_option ((#) Bol) (parse_pattern cs)
      else if c \<in> set regExpChars then None
      else map_option ((#) (Lit c)) (parse_pattern cs))"

fun match_here ::
  "Runtime \<Rightarrow> bool \<Rightarrow> bool \<Rightarrow> atom list \<Rightarrow> nat option \<Rightarrow> nat list \<Rightarrow> bool" where
  "match_here rt ci ml [] prev s = True"
| "match_here rt ci ml (Bol # ats) prev s =
     ((case prev of None \<Rightarrow> True | Some c \<Rightarrow> ml \<and> line_break rt c)
      \<and> match_here rt ci ml ats prev s)"
| "match_here rt ci ml (Lit c # ats) prev [] = False"
| "match_here rt ci ml (Lit c # ats) prev (d # s) =
     ((if ci then same_letter rt c d else c = d) \<and> match_here rt ci ml ats (Some d) s)"

fun search ::
  "Runtime \<Rightarrow> bool \<Rightarrow> bool \<Rightarrow> atom list \<Rightarrow> nat option \<Rightarrow> nat list \<Rightarrow> bool" where
  "search rt ci ml ats prev [] = match_here rt ci ml ats prev []"
| "search rt ci ml ats prev (d # s) =
     (match_here rt ci ml ats prev (d # s) \<or> search rt ci ml ats (Some d) s)"

definition regex_test :: "Runtime \<Rightarrow> RegExp \<Rightarrow> nat list \<Rightarrow> bool option" where
  "regex_test rt re s =
     map_option
       (\<lambda>ats. search rt (CHR ''i'' \<in> set (flags re)) (CHR ''m'' \<in> set (flags re)) ats None s)
       (parse_pattern (source re))"

definition title_matches :: "Runtime \<Rightarrow> string \<Rightarrow> CourseDoc \<Rightarrow> bool option" where
  \<comment> \<open>Whether the title filter built for \<open>q\<close> lets the course through.\<close>
  "title_matches rt q cdoc =
     (case title_regex rt q of
        None \<Rightarrow> Some True
      | Some re \<Rightarrow> regex_test rt re (chars_of rt (title cdoc)))"

subsection \<open>The whole filter\<close>

definition main_query_matches ::
  "Runtime \<Rightarrow> User \<Rightarrow> (int option \<Rightarrow> string list) \<Rightarrow> string \<Rightarrow> string \<Rightarrow> CourseDoc \<Rightarrow> bool" where
  \<comment> \<open>Whether \<open>query\<close>, with its access conditions and its title search, selects the
     course for the list.\<close>
  "main_query_matches rt user listGroup q grp cdoc =
     (matches_or (access_query user listGroup grp) cdoc \<and>
      title_matches rt q cdoc = Some True)"

section \<open>CourseDetailHandler\<close>

subsection \<open>prepare: access to one course\<close>

text \<open>
  \<open>prepare\<close> loads the course and throws unless the viewer may see it. The host's
  \<open>user.own(cdoc)\<close> is the parameter \<open>own\<close>. The check runs only where
  \<open>cdoc.assign?.length\<close> is truthy: the field is present and not empty.
\<close>

definition detail_prepare ::
  "(User \<Rightarrow> CourseDoc \<Rightarrow> bool) \<Rightarrow> (int option \<Rightarrow> string list) \<Rightarrow> User \<Rightarrow> CourseDoc option
     \<Rightarrow> error + CourseDoc" where
  "detail_prepare own listGroup user found =
     (case found of
        None \<Rightarrow> Inl CourseNotFoundError
      | Some cdoc \<Rightarrow>
          if opt_list (assign cdoc) \<noteq> [] \<and> \<not> own user cdoc
             \<and> \<not> hasPerm user PERM_VIEW_HIDDEN_HOMEWORK
          then
            (let groups = listGroup (Some (user_id user));
                 hasAccess =
                   (list_ex (\<lambda>a. a \<in> set groups) (opt_list (assign cdoc))
                    \<or> list_ex (\<lambda>c. c \<in> set groups) (opt_list (classes cdoc))
                    \<or> user_id user \<in> set (opt_list (teachers cdoc)))
             in if \<not> hasAccess then Inl NotFoundError else Inr cdoc)
          else Inr cdoc)"

subsection \<open>get: the progress of the student\<close>

text \<open>
  With a status document, the handler keeps the journal entries whose problem is in the
  course's list (\<open>valid\<close>) and writes them one after the other into \<open>psdict\<close> under
  their problem id; without one (\<open>csdoc\<close> is \<open>null\<close>), \<open>psdict\<close> stays empty.
\<close>

definition valid_entries :: "CourseDoc \<Rightarrow> CourseStatusDoc \<Rightarrow> JournalEntry list" where
  "valid_entries cdoc csdoc =
     filter (\<lambda>p. pid p \<in> set (pids cdoc)) (case journal csdoc of None \<Rightarrow> [] | Some j \<Rightarrow> j)"

fun psdict_loop :: "JournalEntry list \<Rightarrow> (int \<rightharpoonup> JournalEntry) \<Rightarrow> (int \<rightharpoonup> JournalEntry)" where
  "psdict_loop [] psdict = psdict"
| "psdict_loop (pdetail # rest) psdict = psdict_loop rest (psdict(pid pdetail \<mapsto> pdetail))"

definition detail_psdict :: "CourseDoc \<Rightarrow> CourseStatusDoc option \<Rightarrow> (int \<rightharpoonup> JournalEntry)" where
  "detail_psdict cdoc csdoc_opt =
     (case csdoc_opt of
        None \<Rightarrow> Map.empty
      | Some csdoc \<Rightarrow> psdict_loop (valid_entries cdoc csdoc) Map.empty)"

subsection \<open>postAttend\<close>

definition checkPerm :: "User \<Rightarrow> PERM \<Rightarrow> error + unit" where
  \<comment> \<open>The host's \<open>Handler.checkPerm\<close>: throws unless the user holds the permission.\<close>
  "checkPerm user p = (if hasPerm user p then Inr () else Inl (PermissionError p))"

text \<open>
  The handler runs on the course document \<open>cdoc\<close> that \<open>prepare\<close> loaded. The result
  is the error thrown, if any, and the store after the request.
\<close>

definition postAttend ::
  "User \<Rightarrow> CourseDoc \<Rightarrow> string \<Rightarrow> ObjectId \<Rightarrow> Date \<Rightarrow> Store \<Rightarrow> error option \<times> Store" where
  "postAttend user cdoc did cid now st =
     (case checkPerm user PERM_ATTEND_HOMEWORK of
        Inl e \<Rightarrow> (Some e, st)
      | Inr _ \<Rightarrow>
          if isDone cdoc now then (Some (ValidationError [''Course has ended'']), st)
          else attend_model did cid (user_id user) now st)"

section \<open>CourseEditHandler.postUpdate\<close>

subsection \<open>The host and the store\<close>

text \<open>
  What \<open>postUpdate\<close> takes from its environment is a parameter of the model:
  \<open>to_number\<close> is the conversion \<open>+i\<close> of a string to a number (\<open>None\<close> is \<open>NaN\<close>),
  \<open>date_parse\<close> is \<open>new Date(string)\<close> (\<open>None\<close> is an invalid date, whose \<open>getTime()\<close>
  is \<open>NaN\<close>), \<open>getList_throws\<close> is the error, if any, that
  \<open>ProblemModel.getList(domainId, pids, ..., true)\<close> throws, and \<open>new_ObjectId\<close> is the
  identifier the store gives a new document.
\<close>

record Host =
  to_number :: "string \<Rightarrow> int option"
  date_parse :: "string \<Rightarrow> Date option"
  getList_throws :: "int list \<Rightarrow> error option"
  new_ObjectId :: ObjectId

definition CourseModel_add ::
  "Host \<Rightarrow> string \<Rightarrow> string \<Rightarrow> string \<Rightarrow> int \<Rightarrow> int list \<Rightarrow> Date \<Rightarrow> Date
     \<Rightarrow> int list \<Rightarrow> int list \<Rightarrow> string list \<Rightarrow> string list \<Rightarrow> Store \<Rightarrow> ObjectId \<times> Store" where
  \<comment> \<open>Modelled from the spec: \<open>DocumentModel.add\<close> of the host, which \<open>CourseModel.add\<close>
     calls, creates the document under a new identifier. \<open>CourseModel.add\<close> passes the
     fields \<open>title\<close>, \<open>beginAt\<close>, \<open>endAt\<close>, \<open>pids\<close>, \<open>attend: 0\<close> and the arguments
     \<open>maintainer\<close>, \<open>teachers\<close>, \<open>assign\<close>, \<open>classes\<close>.\<close>
  "CourseModel_add host did ttl cont own ps b e mt ts asg cls st =
     (new_ObjectId host,
      st\<lparr>courses := (courses st)((did, new_ObjectId host) \<mapsto>
        \<lparr>docId = new_ObjectId host, domainId = did, owner = own, maintainer = Some mt,
         title = ttl, content = cont, beginAt = b, endAt = e, attend = 0, pids = ps,
         files = None, assign = Some asg, classes = Some cls, teachers = Some ts\<rparr>)\<rparr>)"

definition CourseModel_edit ::
  "string \<Rightarrow> ObjectId \<Rightarrow> string \<Rightarrow> string \<Rightarrow> int list \<Rightarrow> Date \<Rightarrow> Date
     \<Rightarrow> int list \<Rightarrow> int list \<Rightarrow> string list \<Rightarrow> string list \<Rightarrow> Store \<Rightarrow> Store" where
  \<comment> \<open>Modelled from the spec: \<open>DocumentModel.set\<close> of the host, which \<open>CourseModel.edit\<close>
     calls, updates the given fields of the document; where there is no such document,
     nothing changes.\<close>
  "CourseModel_edit did cid ttl cont ps b e mt ts asg cls st =
     (case courses st (did, cid) of
        None \<Rightarrow> st
      | Some c \<Rightarrow>
          st\<lparr>courses := (courses st)((did, cid) \<mapsto>
            c\<lparr>title := ttl, content := cont, pids := ps, beginAt := b, endAt := e,
              maintainer := Some mt, teachers := Some ts, assign := Some asg,
              classes := Some cls\<rparr>)\<rparr>)"

subsection \<open>The problem-id list\<close>

text \<open>
  The text of a request is a string of bytes in UTF-8. \<open>_pids.replace(/\<dots>/g, ',')\<close>
  replaces every fullwidth comma (U+FF0C, the bytes EF BC 8C) by a comma;
  \<open>split(',')\<close> cuts at every comma, so that the empty string gives one empty piece;
  \<open>map((i) => +i)\<close> converts each piece, and \<open>filter((i) => i)\<close> keeps the truthy
  numbers: neither \<open>NaN\<close> nor 0.
\<close>

fun replace_fullwidth_comma :: "string \<Rightarrow> string" where
  "replace_fullwidth_comma (a # b # c # s) =
     (if a = CHR 0xEF \<and> b = CHR 0xBC \<and> c = CHR 0x8C
      then CHR '','' # replace_fullwidth_comma s
      else a # replace_fullwidth_comma (b # c # s))"
| "replace_fullwidth_comma s = s"

fun split_comma :: "string \<Rightarrow> string list" where
  "split_comma [] = [[]]"
| "split_comma (c # s) =
     (if c = CHR '','' then [] # split_comma s
      else (case split_comma s of [] \<Rightarrow> [[c]] | piece # pieces \<Rightarrow> (c # piece) # pieces))"

definition truthy :: "int option \<Rightarrow> bool" where
  "truthy n = (n \<noteq> None \<and> n \<noteq> Some 0)"

definition parse_pids :: "Host \<Rightarrow> string \<Rightarrow> int list" where
  "parse_pids host s =
     map the (filter truthy (map (to_number host) (split_comma (replace_fullwidth_comma s))))"

subsection \<open>The handler of the update\<close>

record UpdateRequest =
  req_cid :: "ObjectId option"
  req_title :: string
  req_content :: string
  req_pids :: string
  beginAtDate :: string
  beginAtTime :: string
  endAtDate :: string
  endAtTime :: string
  req_maintainer :: "int list"
  req_teachers :: "int list"
  req_assign :: "string list"
  req_classes :: "string list"

text \<open>
  The result is the error thrown or the course id of the response, and the store after
  the request.
\<close>

definition postUpdate ::
  "Host \<Rightarrow> User \<Rightarrow> string \<Rightarrow> UpdateRequest \<Rightarrow> Store \<Rightarrow> (error + ObjectId) \<times> Store" where
  "postUpdate host user did req st =
     (let ps = parse_pids host (req_pids req);
          b = date_parse host (beginAtDate req @ '' '' @ beginAtTime req);
          e = date_parse host (endAtDate req @ '' '' @ endAtTime req)
      in case b of
           None \<Rightarrow> (Inl (ValidationError [''beginAtDate'', ''beginAtTime'']), st)
         | Some beginAt' \<Rightarrow>
        (case e of
           None \<Rightarrow> (Inl (ValidationError [''endAtDate'', ''endAtTime'']), st)
         | Some endAt' \<Rightarrow>
             if beginAt' \<ge> endAt' then (Inl (ValidationError [''endAtDate'', ''endAtTime'']), st)
             else
               (case (if ps \<noteq> [] then getList_throws host ps else None) of
                  Some err \<Rightarrow> (Inl err, st)
                | None \<Rightarrow>
                    (case req_cid req of
                       None \<Rightarrow>
                         (case CourseModel_add host did (req_title req) (req_content req)
                                 (user_id user) ps beginAt' endAt' (req_maintainer req)
                                 (req_teachers req) (req_assign req) (req_classes req) st of
                            (cid, st') \<Rightarrow> (Inr cid, st'))
                     | Some cid \<Rightarrow>
                         (Inr cid,
                          CourseModel_edit did cid (req_title req) (req_content req) ps
                            beginAt' endAt' (req_maintainer req) (req_teachers req)
                            (req_assign req) (req_classes req) st)))))"

section \<open>CourseFilesHandler.postUploadFile\<close>

subsection \<open>The blob store and the limits\<close>

text \<open>
  The blob store of the host is a parameter: a state of any type \<open>'b\<close> with the two
  operations the handler calls, \<open>StorageModel.put(path, file, uid)\<close> and
  \<open>StorageModel.getMeta(path)\<close> (\<open>None\<close> is \<open>null\<close>); \<open>oid_string\<close> prints a course id
  in a path. The two limits are what \<open>SystemModel.get\<close> returns for
  \<open>limit.contest_files\<close> and \<open>limit.contest_files_size\<close>.
\<close>

record FileMeta =
  meta_size :: "int option"
  meta_lastModified :: "Date option"
  meta_etag :: "string option"

record 'b StorageModel =
  put :: "string \<Rightarrow> string \<Rightarrow> int \<Rightarrow> 'b \<Rightarrow> 'b"
  getMeta :: "string \<Rightarrow> 'b \<Rightarrow> FileMeta option"
  oid_string :: "ObjectId \<Rightarrow> string"

record Limits =
  limit_contest_files :: int
  limit_contest_files_size :: int

text \<open>The uploaded file of the request, \<open>this.request.files?.file\<close>.\<close>

record UploadedFile =
  filepath :: string
  upload_size :: int

subsection \<open>The handler of the upload\<close>

definition size_or_0 :: "FileInfo \<Rightarrow> int" where
  \<comment> \<open>\<open>i.size || 0\<close>\<close>
  "size_or_0 i = (case fsize i of None \<Rightarrow> 0 | Some n \<Rightarrow> if n = 0 then 0 else n)"

definition existing_size :: "CourseDoc \<Rightarrow> int" where
  \<comment> \<open>\<open>(this.cdoc.files || []).reduce((acc, i) => acc + (i.size || 0), 0)\<close>\<close>
  "existing_size cdoc = foldl (\<lambda>acc i. acc + size_or_0 i) 0 (opt_list (files cdoc))"

definition CourseModel_edit_files ::
  "string \<Rightarrow> ObjectId \<Rightarrow> FileInfo list \<Rightarrow> Store \<Rightarrow> Store" where
  \<comment> \<open>Modelled from the spec: \<open>DocumentModel.set\<close> of the host, called by
     \<open>CourseModel.edit(domainId, cid, { files })\<close>, replaces the attachment list of the
     document, if there is one.\<close>
  "CourseModel_edit_files did cid fs st =
     (case courses st (did, cid) of
        None \<Rightarrow> st
      | Some c \<Rightarrow> st\<lparr>courses := (courses st)((did, cid) \<mapsto> c\<lparr>files := Some fs\<rparr>)\<rparr>)"

text \<open>
  The handler runs on the course document \<open>cdoc\<close> that \<open>prepare\<close> loaded. The result is
  the error thrown, if any, the document store and the blob store after the request.
\<close>

definition postUploadFile ::
  "'b StorageModel \<Rightarrow> Limits \<Rightarrow> User \<Rightarrow> CourseDoc \<Rightarrow> string \<Rightarrow> ObjectId \<Rightarrow> string
     \<Rightarrow> UploadedFile option \<Rightarrow> Store \<times> 'b \<Rightarrow> error option \<times> Store \<times> 'b" where
  "postUploadFile storage limits user cdoc did cid filename file' state =
     (case state of (st, blobs) \<Rightarrow>
        if int (length (opt_list (files cdoc))) \<ge> limit_contest_files limits
        then (Some (FileLimitExceededError ''count''), st, blobs)
        else
          (case file' of
             None \<Rightarrow> (Some (ValidationError [''file'']), st, blobs)
           | Some f \<Rightarrow>
               (let total = existing_size cdoc + upload_size f
                in if total \<ge> limit_contest_files_size limits
                   then (Some (FileLimitExceededError ''size''), st, blobs)
                   else
                     (let path = ''course/'' @ did @ ''/'' @ oid_string storage cid @ ''/''
                                   @ filename;
                          blobs' = put storage path (filepath f) (user_id user) blobs;
                          meta = getMeta storage path blobs'
                      in case meta of
                           None \<Rightarrow> (Some FileUploadError, st, blobs')
                         | Some m \<Rightarrow>
                             (None,
                              CourseModel_edit_files did cid
                                (opt_list (files cdoc) @
                                   [\<lparr>file_id = filename, name = filename,
                                     fsize = meta_size m,
                                     lastModified = meta_lastModified m,
                                     etag = meta_etag m\<rparr>]) st,
                              blobs')))))"

section \<open>CourseScoreboardHandler.get\<close>

record Row =
  row_uid :: int
  scores :: "int \<rightharpoonup> int"
  totalScore :: int

definition score_or_0 :: "JournalEntry option \<Rightarrow> int" where
  \<comment> \<open>\<open>progress?.score || 0\<close>: no entry gives 0, and so does the falsy score 0.\<close>
  "score_or_0 progress =
     (case progress of None \<Rightarrow> 0 | Some j \<Rightarrow> if score j = 0 then 0 else score j)"

fun score_loop :: "JournalEntry list \<Rightarrow> int list \<Rightarrow> Row \<Rightarrow> Row" where
  "score_loop js [] row = row"
| "score_loop js (p # ps) row =
     (let progress = find (\<lambda>j. pid j = p) js
      in score_loop js ps
           (row\<lparr>scores := (scores row)(p \<mapsto> score_or_0 progress),
                totalScore := totalScore row + score_or_0 progress\<rparr>))"

definition scoreboard_row :: "CourseDoc \<Rightarrow> CourseStatusDoc \<Rightarrow> Row" where
  "scoreboard_row cdoc csdoc =
     score_loop (case journal csdoc of None \<Rightarrow> [] | Some j \<Rightarrow> j) (pids cdoc)
       \<lparr>row_uid = uid csdoc, scores = Map.empty, totalScore = 0\<rparr>"

definition scoreboard_rows :: "CourseDoc \<Rightarrow> CourseStatusDoc list \<Rightarrow> Row list" where
  \<comment> \<open>\<open>rows.sort((a, b) => b.totalScore - a.totalScore)\<close>: a stable sort, highest
     total first.\<close>
  "scoreboard_rows cdoc csdocs = sort_key (\<lambda>r. - totalScore r) (map (scoreboard_row cdoc) csdocs)"

section \<open>The rules of the spec\<close>

definition effective_entry :: "JournalEntry list \<Rightarrow> int \<Rightarrow> JournalEntry option" where
  \<comment> \<open>The spec's words: the last journal entry, by append order, whose problem id
     matches; none when no entry matches.\<close>
  "effective_entry js p =
     (case filter (\<lambda>j. pid j = p) js of [] \<Rightarrow> None | es \<Rightarrow> Some (last es))"

definition effective_score :: "JournalEntry list \<Rightarrow> int \<Rightarrow> int" where
  "effective_score js p = (case effective_entry js p of None \<Rightarrow> 0 | Some j \<Rightarrow> score j)"

definition spec_visible :: "int \<Rightarrow> string list \<Rightarrow> string \<Rightarrow> CourseDoc \<Rightarrow> bool" where
  \<comment> \<open>The spec's words, for a viewer with the groups \<open>groups\<close>: the viewer is owner; is a
     maintainer; is a teacher; the assigned-group set intersects the viewer's groups; the
     assigned-group set is empty; or a group filter was given and the assigned-group set
     or the legacy class set contains that group.\<close>
  "spec_visible u groups grp cdoc =
     (owner cdoc = u
      \<or> u \<in> set (opt_list (maintainer cdoc))
      \<or> u \<in> set (opt_list (teachers cdoc))
      \<or> list_ex (\<lambda>g. g \<in> set groups) (opt_list (assign cdoc))
      \<or> opt_list (assign cdoc) = []
      \<or> (grp \<noteq> [] \<and>
          (grp \<in> set (opt_list (assign cdoc)) \<or> grp \<in> set (opt_list (classes cdoc)))))"

definition caseless_prefix :: "('a \<Rightarrow> 'b \<Rightarrow> bool) \<Rightarrow> 'a list \<Rightarrow> 'b list \<Rightarrow> bool" where
  \<comment> \<open>The text starts with the characters of \<open>p\<close>, up to letter case.\<close>
  "caseless_prefix same p t = (length p \<le> length t \<and> list_all2 same p (take (length p) t))"

definition caseless_infix :: "('a \<Rightarrow> 'b \<Rightarrow> bool) \<Rightarrow> 'a list \<Rightarrow> 'b list \<Rightarrow> bool" where
  \<comment> \<open>The characters of \<open>p\<close> occur somewhere in the text, up to letter case.\<close>
  "caseless_infix same p t =
     list_ex (\<lambda>k. caseless_prefix same p (drop k t)) [0 ..< Suc (length t)]"

definition spec_title_match :: "Runtime \<Rightarrow> string \<Rightarrow> string \<Rightarrow> bool" where
  \<comment> \<open>The spec's words: case-insensitive; a query of length at least 2 matches anywhere
     in the title, a single character only as a prefix of the title. The query is the
     lower-cased one that the handler escapes.\<close>
  "spec_title_match rt q t =
     (if js_length (chars_of rt q) \<ge> 2
      then caseless_infix (same_letter rt) (toLowerCase rt (chars_of rt q)) (chars_of rt t)
      else caseless_prefix (same_letter rt) (toLowerCase rt (chars_of rt q)) (chars_of rt t))"

section \<open>Observations on the store and on concurrent calls\<close>

definition enrolled :: "Store \<Rightarrow> string \<Rightarrow> ObjectId \<Rightarrow> int \<Rightarrow> bool" where
  \<comment> \<open>An enrollment record with \<open>attend = 1\<close> exists for the pair.\<close>
  "enrolled st did cid u =
     (case statuses st (did, cid, u) of None \<Rightarrow> False | Some sd \<Rightarrow> attend_s sd = Some 1)"

definition attendance :: "Store \<Rightarrow> string \<Rightarrow> ObjectId \<Rightarrow> int option" where
  \<comment> \<open>The attendance counter of the course, if the course exists.\<close>
  "attendance st did cid = map_option attend (courses st (did, cid))"

definition finished :: "call_state list \<Rightarrow> bool" where
  "finished cs = (count_list cs NotStarted = 0 \<and> count_list cs Pending = 0)"

definition attend_inv :: "bool \<Rightarrow> int \<Rightarrow> nat \<Rightarrow> string \<Rightarrow> ObjectId \<Rightarrow> int \<Rightarrow> Store \<times> call_state list \<Rightarrow> bool" where
  "attend_inv e0 a0 n did cid u cfg =
     (case cfg of (st, cs) \<Rightarrow>
        length cs = n \<and>
        count_list cs Pending + count_list cs Returned \<le> (if e0 then 0 else 1) \<and>
        enrolled st did cid u = (e0 \<or> count_list cs Pending + count_list cs Returned = 1) \<and>
        (enrolled st did cid u \<or> count_list cs NotStarted = n) \<and>
        attendance st did cid = Some (a0 + int (count_list cs Returned)) \<and>
        count_list cs NotStarted + count_list cs Pending + count_list cs Returned
          + count_list cs (Thrown (Error ''Already enrolled in this course'')) = n)"

section \<open>Example data\<close>

text \<open>Concrete courses, students, requests and hosts, on which the properties below are run.\<close>

text \<open>
  A student of course 1 (problems 1 and 2) scores 100 on problem 1, 50 on problem 2, and
  then resubmits problem 1 for 40.
\<close>

definition resubmit_course :: CourseDoc where
  "resubmit_course =
     \<lparr>docId = 1, domainId = ''system'', owner = 2, maintainer = None, title = ''Algebra'',
      content = ''Intro'', beginAt = 1704067200000, endAt = 1706659200000, attend = 1,
      pids = [1, 2], files = None, assign = None, classes = None, teachers = None\<rparr>"

definition resubmit_journal :: "JournalEntry list" where
  "resubmit_journal =
     [\<lparr>pid = 1, rid = 11, score = 100, status = 1\<rparr>,
      \<lparr>pid = 2, rid = 12, score = 50, status = 2\<rparr>,
      \<lparr>pid = 1, rid = 13, score = 40, status = 2\<rparr>]"

definition resubmit_status :: CourseStatusDoc where
  "resubmit_status =
     \<lparr>uid = 7, enroll = Some 1, attend_s = Some 1, startAt = Some 1704067200000,
      journal = Some resubmit_journal\<rparr>"

text \<open>A store holding course 1 of the domain \<open>system\<close>, with nobody enrolled.\<close>

definition attend_example_store :: Store where
  "attend_example_store =
     \<lparr>courses = [(''system'', 1) \<mapsto>
        \<lparr>docId = 1, domainId = ''system'', owner = 2, maintainer = None, title = ''Algebra'',
         content = ''Intro'', beginAt = 1704067200000, endAt = 1706659200000, attend = 0,
         pids = [1, 2], files = None, assign = None, classes = None, teachers = None\<rparr>],
      statuses = Map.empty\<rparr>"

text \<open>
  A course assigned to group B whose legacy class set holds group A, and a viewer in
  group A who is neither owner, maintainer nor teacher.
\<close>

definition hidden_class_course :: CourseDoc where
  "hidden_class_course =
     \<lparr>docId = 3, domainId = ''system'', owner = 1, maintainer = Some [], title = ''Algebra'',
      content = ''Intro'', beginAt = 1704067200000, endAt = 1706659200000, attend = 0,
      pids = [], files = None, assign = Some [''B''], classes = Some [''A''],
      teachers = Some []\<rparr>"

text \<open>A course whose \<open>assign\<close> field is absent.\<close>

definition unassigned_course :: CourseDoc where
  "unassigned_course =
     \<lparr>docId = 4, domainId = ''system'', owner = 1, maintainer = None, title = ''Geometry'',
      content = ''Intro'', beginAt = 1704067200000, endAt = 1706659200000, attend = 0,
      pids = [], files = None, assign = None, classes = None, teachers = None\<rparr>"

text \<open>
  An instance of the runtime. Its \<open>chars_of\<close> decodes well-formed UTF-8; its
  \<open>toLowerCase\<close> and \<open>same_letter\<close> fold the letters A to Z and leave every other
  character as it is, which is right for ASCII text and for characters without case;
  its line break is the line feed.
\<close>

fun utf8_decode :: "nat list \<Rightarrow> nat list" where
  "utf8_decode [] = []"
| "utf8_decode [b] = [b]"
| "utf8_decode [b, c] =
     (if b < 0x80 then b # utf8_decode [c] else [(b - 0xC0) * 0x40 + (c - 0x80)])"
| "utf8_decode [b, c, d] =
     (if b < 0x80 then b # utf8_decode [c, d]
      else if b < 0xE0 then ((b - 0xC0) * 0x40 + (c - 0x80)) # utf8_decode [d]
      else [(b - 0xE0) * 0x1000 + (c - 0x80) * 0x40 + (d - 0x80)])"
| "utf8_decode (b # c # d # e # s) =
     (if b < 0x80 then b # utf8_decode (c # d # e # s)
      else if b < 0xE0 then ((b - 0xC0) * 0x40 + (c - 0x80)) # utf8_decode (d # e # s)
      else if b < 0xF0
        then ((b - 0xE0) * 0x1000 + (c - 0x80) * 0x40 + (d - 0x80)) # utf8_decode (e # s)
      else ((b - 0xF0) * 0x40000 + (c - 0x80) * 0x1000 + (d - 0x80) * 0x40 + (e - 0x80))
             # utf8_decode s)"

definition ascii_lower :: "nat \<Rightarrow> nat" where
  "ascii_lower c = (if 0x41 \<le> c \<and> c \<le> 0x5A then c + 0x20 else c)"

definition example_runtime :: Runtime where
  "example_runtime =
     \<lparr>chars_of = (\<lambda>s. utf8_decode (map of_char s)),
      toLowerCase = map ascii_lower,
      same_letter = (\<lambda>c d. ascii_lower c = ascii_lower d),
      line_break = (\<lambda>c. c = 0x0A)\<rparr>"

text \<open>A course whose title has two lines, \<open>x\<close> and \<open>Ab\<close>.\<close>

definition two_line_course :: CourseDoc where
  "two_line_course =
     \<lparr>docId = 5, domainId = ''system'', owner = 1, maintainer = None,
      title = [CHR ''x'', CHR 0x0A, CHR ''A'', CHR ''b''],
      content = ''Intro'', beginAt = 1704067200000, endAt = 1706659200000, attend = 0,
      pids = [], files = None, assign = Some [], classes = None, teachers = None\<rparr>"

text \<open>
  A course whose title is the two characters U+7B97 U+6570, and the query of the single
  character U+6570, three bytes in UTF-8 and one UTF-16 code unit.
\<close>

definition cjk_course :: CourseDoc where
  "cjk_course =
     \<lparr>docId = 7, domainId = ''system'', owner = 1, maintainer = None,
      title = [CHR 0xE7, CHR 0xAE, CHR 0x97, CHR 0xE6, CHR 0x95, CHR 0xB0],
      content = ''Intro'', beginAt = 1704067200000, endAt = 1706659200000, attend = 0,
      pids = [], files = None, assign = Some [], classes = None, teachers = None\<rparr>"

definition cjk_query :: string where
  "cjk_query = [CHR 0xE6, CHR 0x95, CHR 0xB0]"

text \<open>
  An instance of the host of \<open>postUpdate\<close>. Its \<open>to_number\<close> reads a string of
  decimal digits (the empty string is 0) and gives \<open>NaN\<close> for a string with any other
  character, as \<open>+i\<close> does for \<open>abc\<close>; its \<open>date_parse\<close> knows the two date strings
  of the examples (their time values in UTC); problems 1 and 2 exist.
\<close>

definition digit_value :: "char \<Rightarrow> int option" where
  "digit_value c =
     (if 48 \<le> (of_char c :: nat) \<and> (of_char c :: nat) \<le> 57
      then Some (int (of_char c) - 48) else None)"

fun decimal_value :: "int \<Rightarrow> string \<Rightarrow> int option" where
  "decimal_value acc [] = Some acc"
| "decimal_value acc (c # s) =
     (case digit_value c of None \<Rightarrow> None | Some d \<Rightarrow> decimal_value (10 * acc + d) s)"

definition example_host :: Host where
  "example_host =
     \<lparr>to_number = decimal_value 0,
      date_parse = (\<lambda>s. if s = ''2024-01-01 08:00'' then Some 1704096000000
                         else if s = ''2024-01-31 18:00'' then Some 1706724000000
                         else None),
      getList_throws = (\<lambda>ps. if set ps \<subseteq> {1, 2} then None else Some ProblemNotFoundError),
      new_ObjectId = 9\<rparr>"

definition example_request :: UpdateRequest where
  "example_request =
     \<lparr>req_cid = None, req_title = ''Algebra'', req_content = ''Intro'',
      req_pids = ''abc,1'', beginAtDate = ''2024-01-01'', beginAtTime = ''08:00'',
      endAtDate = ''2024-01-31'', endAtTime = ''18:00'', req_maintainer = [],
      req_teachers = [], req_assign = [], req_classes = []\<rparr>"

definition empty_store :: Store where
  "empty_store = \<lparr>courses = Map.empty, statuses = Map.empty\<rparr>"

text \<open>
  A course with two attachments, of 60 bytes and of no recorded size, and a blob store
  that is the list of the paths written.
\<close>

definition two_files_course :: CourseDoc where
  "two_files_course =
     \<lparr>docId = 6, domainId = ''system'', owner = 2, maintainer = None, title = ''Algebra'',
      content = ''Intro'', beginAt = 1704067200000, endAt = 1706659200000, attend = 0,
      pids = [],
      files = Some [\<lparr>file_id = ''a.pdf'', name = ''a.pdf'', fsize = Some 60,
                      lastModified = None, etag = None\<rparr>,
                    \<lparr>file_id = ''b.pdf'', name = ''b.pdf'', fsize = None,
                      lastModified = None, etag = None\<rparr>],
      assign = None, classes = None, teachers = None\<rparr>"

definition example_storage :: "string list StorageModel" where
  "example_storage =
     \<lparr>put = (\<lambda>path file' u blobs. path # blobs),
      getMeta = (\<lambda>path blobs.
        if path \<in> set blobs
        then Some \<lparr>meta_size = Some 40, meta_lastModified = None, meta_etag = None\<rparr>
        else None),
      oid_string = (\<lambda>cid. ''c'')\<rparr>"

section \<open>The effective progress entry\<close>

lemma psdict_loop_lookup:
  "psdict_loop es m p =
     (case filter (\<lambda>j. pid j = p) es of [] \<Rightarrow> m p | fs \<Rightarrow> Some (last fs))"
  by (induction es arbitrary: m) (auto split: list.splits)

lemma filter_pid_valid:
  "filter (\<lambda>j. pid j = p) (filter (\<lambda>j. pid j \<in> S) js) =
     (if p \<in> S then filter (\<lambda>j. pid j = p) js else [])"
  by (induction js) auto

lemma detail_psdict_effective:
  "detail_psdict cdoc (Some csdoc) p =
     (if p \<in> set (pids cdoc)
      then effective_entry (case journal csdoc of None \<Rightarrow> [] | Some j \<Rightarrow> j) p
      else None)"
  unfolding detail_psdict_def valid_entries_def psdict_loop_lookup filter_pid_valid
    effective_entry_def
  by simp

lemma score_loop_totalScore:
  "totalScore (score_loop js ps row) =
     totalScore row + sum_list (map (\<lambda>p. score_or_0 (find (\<lambda>j. pid j = p) js)) ps)"
  by (induction ps arbitrary: row) (simp_all add: Let_def)

lemma score_loop_scores:
  "scores (score_loop js ps row) p =
     (if p \<in> set ps then Some (score_or_0 (find (\<lambda>j. pid j = p) js)) else scores row p)"
  by (induction ps arbitrary: row) (auto simp: Let_def)

lemma scoreboard_row_totalScore:
  "totalScore (scoreboard_row cdoc csdoc) =
     sum_list (map (\<lambda>p. score_or_0
       (find (\<lambda>j. pid j = p) (case journal csdoc of None \<Rightarrow> [] | Some j \<Rightarrow> j))) (pids cdoc))"
  by (simp add: scoreboard_row_def score_loop_totalScore)

lemma scoreboard_row_scores:
  "scores (scoreboard_row cdoc csdoc) p =
     (if p \<in> set (pids cdoc)
      then Some (score_or_0
        (find (\<lambda>j. pid j = p) (case journal csdoc of None \<Rightarrow> [] | Some j \<Rightarrow> j)))
      else None)"
  by (simp add: scoreboard_row_def score_loop_scores)

text \<open>
  Claim C1. The effective progress entry of a student for a problem of the course, on the
  student's own progress display and on the scoreboard alike, is the last journal entry
  for the problem. The detail handler does that (\<open>detail_psdict_effective\<close>); the
  scoreboard takes the first matching entry with \<open>find\<close>. After the resubmission the
  effective entry of problem 1 is the one scoring 40, which the detail page shows, while
  the scoreboard shows 100.
\<close>

theorem scoreboard_score_after_resubmission:
  "effective_entry resubmit_journal 1 = Some \<lparr>pid = 1, rid = 13, score = 40, status = 2\<rparr> \<and>
   detail_psdict resubmit_course (Some resubmit_status) 1 =
     Some \<lparr>pid = 1, rid = 13, score = 40, status = 2\<rparr> \<and>
   scores (scoreboard_row resubmit_course resubmit_status) 1 = Some 100"
  by (simp add: effective_entry_def detail_psdict_def valid_entries_def scoreboard_row_def
      resubmit_course_def resubmit_status_def resubmit_journal_def score_or_0_def)

section \<open>At most one enrollment\<close>

lemma attend_set_throws:
  "enrolled st did cid u \<Longrightarrow>
   attend_set did cid u now st = Inl (Error ''Already enrolled in this course'')"
  by (auto simp: attend_set_def setIfNotStatus_attend_def enrolled_def split: option.splits)

lemma attend_set_succeeds:
  "\<not> enrolled st did cid u \<Longrightarrow>
   \<exists>st'. attend_set did cid u now st = Inr st' \<and> enrolled st' did cid u \<and>
      courses st' = courses st \<and>
      (\<forall>k. k \<noteq> (did, cid, u) \<longrightarrow> statuses st' k = statuses st k)"
  by (auto simp: attend_set_def setIfNotStatus_attend_def enrolled_def split: option.splits)

lemma inc_attend_enrolled: "enrolled (inc_attend did cid st) d c u = enrolled st d c u"
  by (simp add: inc_attend_def enrolled_def split: option.splits)

lemma inc_attend_statuses: "statuses (inc_attend did cid st) = statuses st"
  by (simp add: inc_attend_def split: option.splits)

lemma inc_attend_attendance:
  "attendance (inc_attend did cid st) did cid = map_option (\<lambda>a. a + 1) (attendance st did cid)"
  by (simp add: inc_attend_def attendance_def split: option.splits)

lemma count_list_update:
  "i < length xs \<Longrightarrow>
   count_list (xs[i := y]) z + (if xs ! i = z then 1 else 0) =
   count_list xs z + (if y = z then 1 else 0)"
proof (induction xs arbitrary: i)
  case Nil
  then show ?case by simp
next
  case (Cons x xs)
  show ?case
  proof (cases i)
    case 0
    then show ?thesis by simp
  next
    case (Suc k)
    then show ?thesis using Cons.IH [of k] Cons.prems by (auto split: if_splits)
  qed
qed

lemma count_list_replicate_same: "count_list (replicate n x) y = (if x = y then n else 0)"
  by (induction n) auto

lemma attend_inv_step:
  assumes "attend_inv e0 a0 n did cid u cfg"
  shows "attend_inv e0 a0 n did cid u (attend_step did cid u clock i cfg)"
proof (cases cfg)
  case (Pair st cs)
  show ?thesis
  proof (cases "i < length cs")
    case False
    then show ?thesis using assms Pair by simp
  next
    case True
    note cu = count_list_update [OF True]
    show ?thesis
    proof (cases "cs ! i")
      case NotStarted
      show ?thesis
      proof (cases "enrolled st did cid u")
        case True
        from attend_set_throws [OF True, of "clock i"]
        show ?thesis
          using assms Pair \<open>i < length cs\<close> NotStarted True
            cu [of "Thrown (Error ''Already enrolled in this course'')" NotStarted]
            cu [of "Thrown (Error ''Already enrolled in this course'')" Pending]
            cu [of "Thrown (Error ''Already enrolled in this course'')" Returned]
            cu [of "Thrown (Error ''Already enrolled in this course'')" "Thrown (Error ''Already enrolled in this course'')"]
          by (auto simp: attend_inv_def)
      next
        case False
        from attend_set_succeeds [OF False, of "clock i"]
        obtain st' where s: "attend_set did cid u (clock i) st = Inr st'"
          "enrolled st' did cid u" "courses st' = courses st" by blast
        then have a: "attendance st' did cid = attendance st did cid"
          by (simp add: attendance_def)
        show ?thesis
          using assms Pair \<open>i < length cs\<close> NotStarted False s(1,2) a
            cu [of Pending NotStarted]
            cu [of Pending Pending]
            cu [of Pending Returned]
            cu [of Pending "Thrown (Error ''Already enrolled in this course'')"]
          by (auto simp: attend_inv_def)
      qed
    next
      case Pending
      show ?thesis
        using assms Pair \<open>i < length cs\<close> Pending
          cu [of Returned NotStarted]
          cu [of Returned Pending]
          cu [of Returned Returned]
          cu [of Returned "Thrown (Error ''Already enrolled in this course'')"]
        by (auto simp: attend_inv_def inc_attend_enrolled inc_attend_attendance)
    next
      case Returned
      then show ?thesis using assms Pair True by simp
    next
      case (Thrown e)
      then show ?thesis using assms Pair True by simp
    qed
  qed
qed

lemma attend_inv_run:
  "attend_inv e0 a0 n did cid u cfg \<Longrightarrow>
   attend_inv e0 a0 n did cid u (run_schedule did cid u clock sched cfg)"
  by (induction sched arbitrary: cfg) (simp_all add: attend_inv_step del: attend_step.simps)

lemma attend_inv_init:
  "attendance st did cid = Some a0 \<Longrightarrow>
   attend_inv (enrolled st did cid u) a0 n did cid u (st, replicate n NotStarted)"
  by (simp add: attend_inv_def count_list_replicate_same)

lemma attend_step_frame:
  "k \<noteq> (did, cid, u) \<Longrightarrow>
   statuses (fst (attend_step did cid u clock i cfg)) k = statuses (fst cfg) k"
proof (cases cfg)
  case (Pair st cs)
  assume k: "k \<noteq> (did, cid, u)"
  have "statuses st' k = statuses st k" if "attend_set did cid u now st = Inr st'" for st' now
    using that k
    by (auto simp: attend_set_def setIfNotStatus_attend_def split: option.splits if_splits)
  then show ?thesis
    using Pair by (auto simp: inc_attend_statuses split: call_state.splits sum.splits)
qed

lemma run_schedule_frame:
  "k \<noteq> (did, cid, u) \<Longrightarrow>
   statuses (fst (run_schedule did cid u clock sched cfg)) k = statuses (fst cfg) k"
  by (induction sched arbitrary: cfg) (simp_all add: attend_step_frame del: attend_step.simps)

lemma attend_model_enrolled:
  "enrolled st did cid u \<Longrightarrow>
   attend_model did cid u now st = (Some (Error ''Already enrolled in this course''), st)"
  by (simp add: attend_model_def attend_set_throws)

lemma attend_model_fresh:
  assumes "\<not> enrolled st did cid u" and "attendance st did cid = Some a0"
  shows "fst (attend_model did cid u now st) = None \<and>
         enrolled (snd (attend_model did cid u now st)) did cid u \<and>
         attendance (snd (attend_model did cid u now st)) did cid = Some (a0 + 1)"
proof -
  from attend_set_succeeds [OF assms(1), of now]
  obtain st' where s: "attend_set did cid u now st = Inr st'"
    "enrolled st' did cid u" "courses st' = courses st" by blast
  then have "attendance st' did cid = Some a0"
    using assms(2) by (simp add: attendance_def)
  then show ?thesis
    using s by (simp add: attend_model_def inc_attend_enrolled inc_attend_attendance)
qed

text \<open>
  Claim C2. \<open>CourseModel.attend\<close> succeeds at most once for a (course, user) pair. It
  performs the conditional set of the enrollment record first and increments the
  attendance counter, by exactly 1, only after that succeeded; where an enrollment with
  \<open>attend = 1\<close> exists, it fails with \<open>Error('Already enrolled in this course')\<close> and
  leaves the store as it was. For \<open>n\<close> concurrent calls under any schedule of their
  steps, at most one call ever gets past the conditional set, the counter has grown by
  the number of returned calls, no other enrollment record is touched, and once all calls
  have finished (the pair not enrolled before, \<open>n > 0\<close>) exactly one call has returned,
  the other \<open>n - 1\<close> have thrown the conflict, and the counter has grown by 1.
\<close>

theorem attend_at_most_once:
  assumes course: "attendance st did cid = Some a0"
    and run: "run_schedule did cid u clock sched (st, replicate n NotStarted) = (st', cs)"
  shows
    "(enrolled st did cid u \<longrightarrow>
        attend_model did cid u now st = (Some (Error ''Already enrolled in this course''), st)) \<and>
     (\<not> enrolled st did cid u \<longrightarrow>
        fst (attend_model did cid u now st) = None \<and>
        enrolled (snd (attend_model did cid u now st)) did cid u \<and>
        attendance (snd (attend_model did cid u now st)) did cid = Some (a0 + 1) \<and>
        attend_model did cid u later (snd (attend_model did cid u now st)) =
          (Some (Error ''Already enrolled in this course''), snd (attend_model did cid u now st))) \<and>
     count_list cs Pending + count_list cs Returned \<le> 1 \<and>
     attendance st' did cid = Some (a0 + int (count_list cs Returned)) \<and>
     (enrolled st did cid u \<longrightarrow> count_list cs Pending + count_list cs Returned = 0) \<and>
     (count_list cs NotStarted < n \<longrightarrow> enrolled st' did cid u) \<and>
     (\<forall>k. k \<noteq> (did, cid, u) \<longrightarrow> statuses st' k = statuses st k) \<and>
     (finished cs \<and> 0 < n \<and> \<not> enrolled st did cid u \<longrightarrow>
        count_list cs Returned = 1 \<and>
        count_list cs (Thrown (Error ''Already enrolled in this course'')) = n - 1 \<and>
        attendance st' did cid = Some (a0 + 1))"
proof -
  have inv: "attend_inv (enrolled st did cid u) a0 n did cid u (st', cs)"
    using attend_inv_run [OF attend_inv_init [OF course], of u n clock sched] run by simp
  have frame: "\<forall>k. k \<noteq> (did, cid, u) \<longrightarrow> statuses st' k = statuses st k"
    using run_schedule_frame [of _ did cid u clock sched "(st, replicate n NotStarted)"] run
    by simp
  have seq1: "enrolled st did cid u \<longrightarrow>
        attend_model did cid u now st = (Some (Error ''Already enrolled in this course''), st)"
    by (simp add: attend_model_enrolled)
  have seq2: "\<not> enrolled st did cid u \<longrightarrow>
        fst (attend_model did cid u now st) = None \<and>
        enrolled (snd (attend_model did cid u now st)) did cid u \<and>
        attendance (snd (attend_model did cid u now st)) did cid = Some (a0 + 1) \<and>
        attend_model did cid u later (snd (attend_model did cid u now st)) =
          (Some (Error ''Already enrolled in this course''), snd (attend_model did cid u now st))"
    using attend_model_fresh [OF _ course, of u now] by (simp add: attend_model_enrolled)
  have conc: "count_list cs Pending + count_list cs Returned \<le> 1 \<and>
     attendance st' did cid = Some (a0 + int (count_list cs Returned)) \<and>
     (enrolled st did cid u \<longrightarrow> count_list cs Pending + count_list cs Returned = 0) \<and>
     (count_list cs NotStarted < n \<longrightarrow> enrolled st' did cid u)"
    using inv by (auto simp: attend_inv_def split: if_splits)
  have fin: "finished cs \<and> 0 < n \<and> \<not> enrolled st did cid u \<longrightarrow>
        count_list cs Returned = 1 \<and>
        count_list cs (Thrown (Error ''Already enrolled in this course'')) = n - 1 \<and>
        attendance st' did cid = Some (a0 + 1)"
    using inv by (auto simp: attend_inv_def finished_def split: if_splits)
  show ?thesis using seq1 seq2 conc frame fin by blast
qed

text \<open>
  Three concurrent calls for user 7 on an empty roster: call 0 wins the conditional set,
  call 1 loses it before call 0 has incremented the counter, call 2 after.
\<close>

theorem attend_at_most_once_witness:
  "attendance attend_example_store ''system'' 1 = Some 0 \<and>
   \<not> enrolled attend_example_store ''system'' 1 7 \<and>
   finished (snd (run_schedule ''system'' 1 7 (\<lambda>i. 1704067200000 + int i) [0, 1, 0, 2]
      (attend_example_store, replicate 3 NotStarted))) \<and>
   count_list (snd (run_schedule ''system'' 1 7 (\<lambda>i. 1704067200000 + int i) [0, 1, 0, 2]
      (attend_example_store, replicate 3 NotStarted))) Returned = 1 \<and>
   count_list (snd (run_schedule ''system'' 1 7 (\<lambda>i. 1704067200000 + int i) [0, 1, 0, 2]
      (attend_example_store, replicate 3 NotStarted)))
      (Thrown (Error ''Already enrolled in this course'')) = 2 \<and>
   attendance (fst (run_schedule ''system'' 1 7 (\<lambda>i. 1704067200000 + int i) [0, 1, 0, 2]
      (attend_example_store, replicate 3 NotStarted))) ''system'' 1 = Some 1"
proof -
  let ?R = "run_schedule ''system'' 1 7 (\<lambda>i. 1704067200000 + int i) [0, 1, 0, 2]
      (attend_example_store, replicate 3 NotStarted)"
  have c: "attendance attend_example_store ''system'' 1 = Some 0"
    by (simp add: attendance_def attend_example_store_def)
  have ne: "\<not> enrolled attend_example_store ''system'' 1 7"
    by (simp add: enrolled_def attend_example_store_def)
  have r: "?R = (fst ?R, snd ?R)"
    by simp
  have f: "finished (snd ?R)"
    by (simp add: finished_def attend_example_store_def attend_set_def
        setIfNotStatus_attend_def inc_attend_def numeral_3_eq_3)
  from attend_at_most_once [OF c r, of 0] ne f c show ?thesis
    by simp
qed

section \<open>Which courses the list filter matches\<close>

lemma matches_Is_simps:
  "matches (Is F_owner n) cdoc = (owner cdoc = n)"
  "matches (Is F_maintainer n) cdoc = (n \<in> set (opt_list (maintainer cdoc)))"
  "matches (Is F_teachers n) cdoc = (n \<in> set (opt_list (teachers cdoc)))"
  by (simp_all add: opt_list_def split: option.splits)

lemma matches_In_simps:
  "matches (In F_assign gs) cdoc = (set (opt_list (assign cdoc)) \<inter> set gs \<noteq> {})"
  "matches (In F_classes gs) cdoc = (set (opt_list (classes cdoc)) \<inter> set gs \<noteq> {})"
  by (auto simp: opt_list_def list_ex_iff split: option.splits)

lemma matches_Size_assign: "matches (Size F_assign 0) cdoc = (assign cdoc = Some [])"
  by (simp split: option.splits)

lemma access_query_matches:
  "matches_or (access_query user listGroup grp) cdoc =
     (if hasPerm user PERM_VIEW_HIDDEN_HOMEWORK \<and> grp = [] then True
      else (owner cdoc = user_id user
        \<or> user_id user \<in> set (opt_list (maintainer cdoc))
        \<or> user_id user \<in> set (opt_list (teachers cdoc))
        \<or> set (opt_list (assign cdoc)) \<inter> set (list_groups user listGroup) \<noteq> {}
        \<or> set (opt_list (classes cdoc)) \<inter> set (list_groups user listGroup) \<noteq> {}
        \<or> assign cdoc = Some []
        \<or> (grp \<noteq> [] \<and>
            (grp \<in> set (opt_list (assign cdoc)) \<or> grp \<in> set (opt_list (classes cdoc))))))"
proof -
  have "matches_or (Some (accessConditions user gs grp)) cdoc =
     (owner cdoc = user_id user
        \<or> user_id user \<in> set (opt_list (maintainer cdoc))
        \<or> user_id user \<in> set (opt_list (teachers cdoc))
        \<or> set (opt_list (assign cdoc)) \<inter> set gs \<noteq> {}
        \<or> set (opt_list (classes cdoc)) \<inter> set gs \<noteq> {}
        \<or> assign cdoc = Some []
        \<or> (grp \<noteq> [] \<and>
            (grp \<in> set (opt_list (assign cdoc)) \<or> grp \<in> set (opt_list (classes cdoc)))))" for gs
    by (auto simp: matches_or_def accessConditions_def matches_Is_simps matches_In_simps
        matches_Size_assign simp del: matches.simps)
  then show ?thesis
    by (simp add: access_query_def list_groups_def matches_or_def)
qed

lemma title_matches_no_query: "title_matches rt [] cdoc = Some True"
  by (simp add: title_matches_def title_regex_def)

text \<open>
  Claim C3, as amended. With \<open>G\<close> the groups the handler asks the host for (the
  viewer's own groups without the view-hidden permission, all groups of the domain with
  it): unless the viewer holds the view-hidden permission and gives no group filter, the
  list filter matches a course if and only if the viewer is its owner, a maintainer or a
  teacher, or its assigned-group set or its legacy class set intersects \<open>G\<close>, or its
  \<open>assign\<close> field is present and empty, or a group filter was given and the
  assigned-group set or the legacy class set contains that group. With the permission
  and no group filter it matches every course. This is the filter without a title search;
  a title search restricts it to the courses whose title matches.
\<close>

theorem list_filter_matches:
  "list_groups user listGroup =
     listGroup (if hasPerm user PERM_VIEW_HIDDEN_HOMEWORK then None else Some (user_id user)) \<and>
   main_query_matches rt user listGroup [] grp cdoc =
     (if hasPerm user PERM_VIEW_HIDDEN_HOMEWORK \<and> grp = [] then True
      else (owner cdoc = user_id user
        \<or> user_id user \<in> set (opt_list (maintainer cdoc))
        \<or> user_id user \<in> set (opt_list (teachers cdoc))
        \<or> set (opt_list (assign cdoc)) \<inter> set (list_groups user listGroup) \<noteq> {}
        \<or> set (opt_list (classes cdoc)) \<inter> set (list_groups user listGroup) \<noteq> {}
        \<or> assign cdoc = Some []
        \<or> (grp \<noteq> [] \<and>
            (grp \<in> set (opt_list (assign cdoc)) \<or> grp \<in> set (opt_list (classes cdoc)))))) \<and>
   main_query_matches rt user listGroup q grp cdoc =
     (main_query_matches rt user listGroup [] grp cdoc \<and>
      title_matches rt q cdoc = Some True)"
  unfolding main_query_matches_def title_matches_no_query access_query_matches
  by (simp add: list_groups_def)

text \<open>
  The course assigned to group B, with class A: listed for a viewer in group A who
  filters by a group C, and for a viewer with the view-hidden permission and no filter;
  not listed for that viewer filtering by group C in a domain without groups.
\<close>

theorem list_filter_matches_witness:
  "main_query_matches example_runtime \<lparr>user_id = 5, hasPerm = (\<lambda>p. False)\<rparr>
     (\<lambda>u. [''A'']) [] ''C'' hidden_class_course \<and>
   main_query_matches example_runtime \<lparr>user_id = 5, hasPerm = (\<lambda>p. True)\<rparr>
     (\<lambda>u. []) [] [] hidden_class_course \<and>
   \<not> main_query_matches example_runtime \<lparr>user_id = 5, hasPerm = (\<lambda>p. True)\<rparr>
     (\<lambda>u. []) [] ''C'' hidden_class_course"
proof -
  note a = list_filter_matches [where rt = example_runtime and cdoc = hidden_class_course
      and q = "''Alg''" and user = "\<lparr>user_id = 5, hasPerm = (\<lambda>p. False)\<rparr>"
      and listGroup = "\<lambda>u. [''A'']" and grp = "''C''", THEN conjunct2, THEN conjunct1]
  note b = list_filter_matches [where rt = example_runtime and cdoc = hidden_class_course
      and q = "''Alg''" and user = "\<lparr>user_id = 5, hasPerm = (\<lambda>p. True)\<rparr>"
      and listGroup = "\<lambda>u. []" and grp = "[]", THEN conjunct2, THEN conjunct1]
  note c = list_filter_matches [where rt = example_runtime and cdoc = hidden_class_course
      and q = "''Alg''" and user = "\<lparr>user_id = 5, hasPerm = (\<lambda>p. True)\<rparr>"
      and listGroup = "\<lambda>u. []" and grp = "''C''", THEN conjunct2, THEN conjunct1]
  show ?thesis
    using a b c by (simp add: hidden_class_course_def opt_list_def list_groups_def)
qed

text \<open>
  The list filter matches the course assigned to group B for a viewer in group A, through
  the branch \<open>{ classes: { $in: groups } }\<close>, although none of the conditions the spec
  lists holds.
\<close>

theorem list_filter_classes_counterexample:
  "main_query_matches example_runtime \<lparr>user_id = 5, hasPerm = (\<lambda>p. False)\<rparr>
     (\<lambda>u. [''A'']) [] [] hidden_class_course \<and>
   \<not> spec_visible 5 [''A''] [] hidden_class_course"
  by (simp add: main_query_matches_def title_matches_no_query matches_or_def access_query_def
      accessConditions_def list_groups_def spec_visible_def opt_list_def
      hidden_class_course_def)

section \<open>When postUpdate fails\<close>

lemma filter_truthy_Some:
  "map Some (map the (filter truthy ns)) = filter truthy ns"
  by (induction ns) (auto simp: truthy_def)

text \<open>
  Claim C4, as amended. \<open>postUpdate\<close> fails with a \<open>ValidationError\<close> whenever the begin
  or the end time does not parse, or \<open>beginAt \<ge> endAt\<close>, and then no course document is
  created or modified. A problem id that is not numeric does not make it fail: with a
  well-formed time range the problem-id list is the list of the pieces' numbers without
  those that are \<open>NaN\<close> or 0, the only error left is the one \<open>ProblemModel.getList\<close>
  throws for a non-empty list (the store unchanged), and otherwise the course is created
  or updated with that list.
\<close>

theorem postUpdate_validation:
  "(date_parse host (beginAtDate req @ '' '' @ beginAtTime req) = None \<longrightarrow>
      postUpdate host user did req st =
        (Inl (ValidationError [''beginAtDate'', ''beginAtTime'']), st)) \<and>
   (date_parse host (beginAtDate req @ '' '' @ beginAtTime req) = Some b \<and>
    (date_parse host (endAtDate req @ '' '' @ endAtTime req) = None \<or>
     (\<exists>e. date_parse host (endAtDate req @ '' '' @ endAtTime req) = Some e \<and> b \<ge> e)) \<longrightarrow>
      postUpdate host user did req st =
        (Inl (ValidationError [''endAtDate'', ''endAtTime'']), st)) \<and>
   (date_parse host (beginAtDate req @ '' '' @ beginAtTime req) = Some b \<and>
    date_parse host (endAtDate req @ '' '' @ endAtTime req) = Some e \<and> b < e \<longrightarrow>
      map Some (parse_pids host (req_pids req)) =
        filter (\<lambda>n. n \<noteq> None \<and> n \<noteq> Some 0)
          (map (to_number host) (split_comma (replace_fullwidth_comma (req_pids req)))) \<and>
      (parse_pids host (req_pids req) \<noteq> [] \<and>
       getList_throws host (parse_pids host (req_pids req)) = Some err \<longrightarrow>
         postUpdate host user did req st = (Inl err, st)) \<and>
      (parse_pids host (req_pids req) = [] \<or>
       getList_throws host (parse_pids host (req_pids req)) = None \<longrightarrow>
         (req_cid req = None \<longrightarrow>
            fst (postUpdate host user did req st) = Inr (new_ObjectId host) \<and>
            map_option pids (courses (snd (postUpdate host user did req st))
                (did, new_ObjectId host)) = Some (parse_pids host (req_pids req))) \<and>
         (\<forall>cid. req_cid req = Some cid \<longrightarrow>
            fst (postUpdate host user did req st) = Inr cid \<and>
            map_option pids (courses (snd (postUpdate host user did req st)) (did, cid)) =
              map_option (\<lambda>c. parse_pids host (req_pids req)) (courses st (did, cid)))))"
proof -
  have p: "map Some (parse_pids host (req_pids req)) =
        filter (\<lambda>n. n \<noteq> None \<and> n \<noteq> Some 0)
          (map (to_number host) (split_comma (replace_fullwidth_comma (req_pids req))))"
    using filter_truthy_Some [of "map (to_number host)
        (split_comma (replace_fullwidth_comma (req_pids req)))"]
    by (simp add: parse_pids_def truthy_def [abs_def])
  show ?thesis
    unfolding p
    by (auto simp: postUpdate_def Let_def CourseModel_add_def CourseModel_edit_def
        split: option.splits)
qed

text \<open>A request whose time range ends before it begins, and one whose begin date does not parse.\<close>

theorem postUpdate_validation_witness:
  "postUpdate example_host \<lparr>user_id = 2, hasPerm = (\<lambda>p. True)\<rparr> ''system''
      (example_request\<lparr>beginAtDate := ''2024-01-31'', beginAtTime := ''18:00'',
         endAtDate := ''2024-01-01'', endAtTime := ''08:00''\<rparr>) empty_store =
     (Inl (ValidationError [''endAtDate'', ''endAtTime'']), empty_store) \<and>
   postUpdate example_host \<lparr>user_id = 2, hasPerm = (\<lambda>p. True)\<rparr> ''system''
      (example_request\<lparr>beginAtDate := ''soon''\<rparr>) empty_store =
     (Inl (ValidationError [''beginAtDate'', ''beginAtTime'']), empty_store)"
  using postUpdate_validation [where host = example_host
      and req = "example_request\<lparr>beginAtDate := ''2024-01-31'', beginAtTime := ''18:00'',
         endAtDate := ''2024-01-01'', endAtTime := ''08:00''\<rparr>" and b = 1706724000000
      and user = "\<lparr>user_id = 2, hasPerm = (\<lambda>p. True)\<rparr>" and did = "''system''"
      and st = empty_store]
    postUpdate_validation [where host = example_host
      and req = "example_request\<lparr>beginAtDate := ''soon''\<rparr>"
      and user = "\<lparr>user_id = 2, hasPerm = (\<lambda>p. True)\<rparr>" and did = "''system''"
      and st = empty_store]
  by (simp add: example_host_def example_request_def)

text \<open>
  A request whose problem-id list \<open>abc,1\<close> holds a non-numeric id, with a well-formed
  time range: the course is created, with the problem list \<open>[1]\<close>.
\<close>

theorem postUpdate_non_numeric_pid_counterexample:
  "''abc'' \<in> set (split_comma (replace_fullwidth_comma (req_pids example_request))) \<and>
   to_number example_host ''abc'' = None \<and>
   fst (postUpdate example_host \<lparr>user_id = 2, hasPerm = (\<lambda>p. True)\<rparr> ''system''
          example_request empty_store) = Inr 9 \<and>
   map_option pids
     (courses (snd (postUpdate example_host \<lparr>user_id = 2, hasPerm = (\<lambda>p. True)\<rparr> ''system''
          example_request empty_store)) (''system'', 9)) = Some [1]"
proof -
  have pieces: "split_comma (replace_fullwidth_comma (req_pids example_request)) = [''abc'', ''1'']"
    by (simp add: example_request_def)
  have nan: "to_number example_host ''abc'' = None"
    by (simp add: example_host_def digit_value_def)
  have one: "to_number example_host ''1'' = Some 1"
    by (simp add: example_host_def digit_value_def)
  have ps: "parse_pids example_host (req_pids example_request) = [1]"
    by (simp add: parse_pids_def pieces nan one truthy_def)
  have b: "date_parse example_host (beginAtDate example_request @ '' '' @
      beginAtTime example_request) = Some 1704096000000"
    by (simp add: example_host_def example_request_def)
  have e: "date_parse example_host (endAtDate example_request @ '' '' @
      endAtTime example_request) = Some 1706724000000"
    by (simp add: example_host_def example_request_def)
  have g: "getList_throws example_host [1] = None"
    by (simp add: example_host_def)
  have n: "req_cid example_request = None"
    by (simp add: example_request_def)
  have i: "new_ObjectId example_host = 9"
    by (simp add: example_host_def)
  show ?thesis
    using pieces nan
    by (simp add: postUpdate_def Let_def ps b [simplified] e [simplified] g n i
        CourseModel_add_def)
qed

section \<open>The quota checks of an upload\<close>

lemma existing_size_sum:
  "existing_size cdoc =
     sum_list (map (\<lambda>i. case fsize i of None \<Rightarrow> 0 | Some n \<Rightarrow> n) (opt_list (files cdoc)))"
proof -
  have "foldl (\<lambda>acc i. acc + size_or_0 i) a fs =
        a + sum_list (map (\<lambda>i. case fsize i of None \<Rightarrow> 0 | Some n \<Rightarrow> n) fs)" for a fs
    by (induction fs arbitrary: a) (simp_all add: size_or_0_def split: option.splits)
  then show ?thesis by (simp add: existing_size_def)
qed

text \<open>
  Claim C5. An upload to a course whose attachment count is at or above the count
  ceiling is rejected with \<open>FileLimitExceededError('count')\<close>; otherwise an upload whose
  size, added to the sum of the sizes of the course's attachments, reaches or exceeds
  the size ceiling is rejected with \<open>FileLimitExceededError('size')\<close>. In both cases
  the blob store is not written and the document store, with the attachment list of the
  course, is as before.
\<close>

theorem upload_quota_rejections:
  "(int (length (opt_list (files cdoc))) \<ge> limit_contest_files limits \<longrightarrow>
      postUploadFile storage limits user cdoc did cid filename file' (st, blobs) =
        (Some (FileLimitExceededError ''count''), st, blobs)) \<and>
   (int (length (opt_list (files cdoc))) < limit_contest_files limits \<and>
    sum_list (map (\<lambda>i. case fsize i of None \<Rightarrow> 0 | Some n \<Rightarrow> n) (opt_list (files cdoc)))
      + upload_size f \<ge> limit_contest_files_size limits \<longrightarrow>
      postUploadFile storage limits user cdoc did cid filename (Some f) (st, blobs) =
        (Some (FileLimitExceededError ''size''), st, blobs))"
  by (simp add: postUploadFile_def existing_size_sum)

text \<open>
  On the course with two attachments: with a count ceiling of 2 an upload is rejected for
  the count; with a count ceiling of 5 and a size ceiling of 100 bytes, an upload of 40
  bytes is rejected for the size (60 + 0 + 40).
\<close>

theorem upload_quota_rejections_witness:
  "postUploadFile example_storage \<lparr>limit_contest_files = 2, limit_contest_files_size = 1000\<rparr>
     \<lparr>user_id = 2, hasPerm = (\<lambda>p. True)\<rparr> two_files_course ''system'' 6 ''c.pdf''
     (Some \<lparr>filepath = ''/tmp/upload'', upload_size = 40\<rparr>)
     (\<lparr>courses = [(''system'', 6) \<mapsto> two_files_course], statuses = Map.empty\<rparr>, []) =
     (Some (FileLimitExceededError ''count''),
      \<lparr>courses = [(''system'', 6) \<mapsto> two_files_course], statuses = Map.empty\<rparr>, []) \<and>
   postUploadFile example_storage \<lparr>limit_contest_files = 5, limit_contest_files_size = 100\<rparr>
     \<lparr>user_id = 2, hasPerm = (\<lambda>p. True)\<rparr> two_files_course ''system'' 6 ''c.pdf''
     (Some \<lparr>filepath = ''/tmp/upload'', upload_size = 40\<rparr>)
     (\<lparr>courses = [(''system'', 6) \<mapsto> two_files_course], statuses = Map.empty\<rparr>, []) =
     (Some (FileLimitExceededError ''size''),
      \<lparr>courses = [(''system'', 6) \<mapsto> two_files_course], statuses = Map.empty\<rparr>, [])"
  using upload_quota_rejections [where cdoc = two_files_course
      and limits = "\<lparr>limit_contest_files = 2, limit_contest_files_size = 1000\<rparr>"
      and storage = example_storage and user = "\<lparr>user_id = 2, hasPerm = (\<lambda>p. True)\<rparr>"
      and did = "''system''" and cid = 6 and filename = "''c.pdf''"
      and file' = "Some \<lparr>filepath = ''/tmp/upload'', upload_size = 40\<rparr>"
      and st = "\<lparr>courses = [(''system'', 6) \<mapsto> two_files_course], statuses = Map.empty\<rparr>"
      and blobs = "[]"]
    upload_quota_rejections [where cdoc = two_files_course
      and limits = "\<lparr>limit_contest_files = 5, limit_contest_files_size = 100\<rparr>"
      and storage = example_storage and user = "\<lparr>user_id = 2, hasPerm = (\<lambda>p. True)\<rparr>"
      and did = "''system''" and cid = 6 and filename = "''c.pdf''"
      and f = "\<lparr>filepath = ''/tmp/upload'', upload_size = 40\<rparr>"
      and st = "\<lparr>courses = [(''system'', 6) \<mapsto> two_files_course], statuses = Map.empty\<rparr>"
      and blobs = "[]"]
  by (simp add: two_files_course_def opt_list_def)

section \<open>The total of a scoreboard row\<close>

text \<open>
  The scoreboard's total is the sum of the per-problem scores it shows, taken over the
  course's problem list.
\<close>

lemma scoreboard_total_is_sum_of_shown_scores:
  "totalScore (scoreboard_row cdoc csdoc) =
     sum_list (map (\<lambda>p. the (scores (scoreboard_row cdoc csdoc) p)) (pids cdoc))"
proof -
  have shown: "map (\<lambda>p. the (scores (scoreboard_row cdoc csdoc) p)) (pids cdoc) =
        map (\<lambda>p. score_or_0
          (find (\<lambda>j. pid j = p) (case journal csdoc of None \<Rightarrow> [] | Some j \<Rightarrow> j))) (pids cdoc)"
    by (rule map_cong) (simp_all add: scoreboard_row_scores)
  show ?thesis by (simp only: shown scoreboard_row_totalScore)
qed

text \<open>Entries for problems outside the course's list change no row.\<close>

lemma find_filter_pid:
  "p \<in> S \<Longrightarrow> find (\<lambda>j. pid j = p) (filter (\<lambda>j. pid j \<in> S) js) = find (\<lambda>j. pid j = p) js"
  by (induction js) auto

lemma scoreboard_row_ignores_other_problems:
  "scoreboard_row cdoc (csdoc\<lparr>journal := Some (filter (\<lambda>j. pid j \<in> set (pids cdoc)) js)\<rparr>) =
   scoreboard_row cdoc (csdoc\<lparr>journal := Some js\<rparr>)"
proof -
  have "score_loop (filter (\<lambda>j. pid j \<in> S) js) ps row = score_loop js ps row"
    if "set ps \<subseteq> S" for S ps row
    using that by (induction ps arbitrary: row) (simp_all add: find_filter_pid)
  then show ?thesis by (simp add: scoreboard_row_def)
qed

lemma scoreboard_row_no_problems:
  "pids cdoc = [] \<Longrightarrow> totalScore (scoreboard_row cdoc csdoc) = 0"
  by (simp add: scoreboard_row_def)

text \<open>
  Where no problem has two journal entries, the first matching entry is the last one, and
  the scoreboard shows the effective score of the spec.
\<close>

lemma find_is_effective_when_distinct:
  "distinct (map pid js) \<Longrightarrow> find (\<lambda>j. pid j = p) js = effective_entry js p"
proof (induction js)
  case Nil
  then show ?case by (simp add: effective_entry_def)
next
  case (Cons j js)
  have "pid j = p \<Longrightarrow> filter (\<lambda>j. pid j = p) js = []"
    using Cons.prems by (auto simp: filter_empty_conv image_iff)
  then show ?case
    using Cons by (auto simp: effective_entry_def)
qed

lemma score_or_0_eq:
  "score_or_0 progress = (case progress of None \<Rightarrow> 0 | Some j \<Rightarrow> score j)"
  by (simp add: score_or_0_def split: option.splits)

lemma scoreboard_total_when_distinct:
  "distinct (map pid js) \<Longrightarrow>
   totalScore (scoreboard_row cdoc (csdoc\<lparr>journal := Some js\<rparr>)) =
     sum_list (map (effective_score js) (pids cdoc))"
  by (simp add: scoreboard_row_totalScore find_is_effective_when_distinct
      effective_score_def [abs_def] score_or_0_eq)

text \<open>
  Claim C6. The scoreboard total of a student is the sum, over the course's current
  problem list, of the student's effective per-problem score. The total is a sum over
  the problem list (\<open>scoreboard_row_totalScore\<close>, \<open>scoreboard_row_ignores_other_problems\<close>,
  \<open>scoreboard_row_no_problems\<close>), and it is the sum of the effective scores where no
  problem was submitted twice (\<open>scoreboard_total_when_distinct\<close>); but the summand is the
  first matching entry's score. After the resubmission the effective scores sum to 90 and
  the scoreboard's total is 150.
\<close>

theorem scoreboard_total_after_resubmission:
  "sum_list (map (effective_score resubmit_journal) (pids resubmit_course)) = 90 \<and>
   map totalScore (scoreboard_rows resubmit_course [resubmit_status]) = [150]"
  by (simp add: effective_score_def effective_entry_def scoreboard_rows_def scoreboard_row_def
      resubmit_course_def resubmit_status_def resubmit_journal_def score_or_0_def)

section \<open>Enrolling in a finished course\<close>

text \<open>
  Claim C7. An enroll attempt on a course whose end time has passed fails before the
  enrollment step of \<open>CourseModel.attend\<close> runs: the store after the request is the store
  before it (no enrollment record, no counter increment), and the error of a user who
  holds the attend permission, which the handler checks first, is
  \<open>ValidationError('Course has ended')\<close>. The course counts as ended exactly when
  \<open>endAt \<le> now\<close>.
\<close>

theorem postAttend_course_ended:
  "isDone cdoc now = (endAt cdoc \<le> now) \<and>
   (endAt cdoc \<le> now \<longrightarrow>
      snd (postAttend user cdoc did cid now st) = st \<and>
      fst (postAttend user cdoc did cid now st) \<noteq> None \<and>
      (hasPerm user PERM_ATTEND_HOMEWORK \<longrightarrow>
         fst (postAttend user cdoc did cid now st) =
           Some (ValidationError [''Course has ended''])))"
  by (simp add: postAttend_def isDone_def checkPerm_def)

text \<open>
  The scenario of the spec: a course from 2024-01-01 to 2024-01-31 (UTC midnights, in
  milliseconds), an attempt on 2024-02-01.
\<close>

theorem postAttend_course_ended_witness:
  "postAttend \<lparr>user_id = 7, hasPerm = (\<lambda>p. True)\<rparr>
     \<lparr>docId = 1, domainId = ''system'', owner = 2, maintainer = None,
        title = ''Algebra'', content = ''Intro'', beginAt = 1704067200000,
        endAt = 1706659200000, attend = 0, pids = [], files = None, assign = None,
        classes = None, teachers = None\<rparr>
     ''system'' 1 1706745600000 \<lparr>courses = Map.empty, statuses = Map.empty\<rparr>
   = (Some (ValidationError [''Course has ended'']),
      \<lparr>courses = Map.empty, statuses = Map.empty\<rparr>)"
  using postAttend_course_ended [of
     "\<lparr>docId = 1, domainId = ''system'', owner = 2, maintainer = None,
        title = ''Algebra'', content = ''Intro'', beginAt = 1704067200000,
        endAt = 1706659200000, attend = 0, pids = [], files = None, assign = None,
        classes = None, teachers = None\<rparr>"
     1706745600000 "\<lparr>user_id = 7, hasPerm = (\<lambda>p. True)\<rparr>" "''system''" 1
     "\<lparr>courses = Map.empty, statuses = Map.empty\<rparr>"]
  by (simp add: prod_eq_iff)

section \<open>What the title filter matches\<close>

lemma backslash_special: "backslash \<in> set regExpChars"
  by (simp add: regExpChars_def)

lemma caret_special: "caret \<in> set regExpChars"
  by (simp add: regExpChars_def)

lemma caret_not_backslash: "caret \<noteq> backslash"
  by (simp add: caret_def backslash_def)

lemma parse_escapeRegExp: "parse_pattern (escapeRegExp s) = Some (map Lit s)"
proof (induction s)
  case Nil
  then show ?case by (simp add: escapeRegExp_def)
next
  case (Cons c s)
  have ih: "parse_pattern (concat (map (\<lambda>c. if c \<in> set regExpChars then [backslash, c] else [c]) s))
      = Some (map Lit s)"
    using Cons.IH by (simp add: escapeRegExp_def)
  show ?case
  proof (cases "c \<in> set regExpChars")
    case True
    then show ?thesis by (simp add: escapeRegExp_def ih)
  next
    case False
    then have "c \<noteq> backslash" "c \<noteq> caret"
      using backslash_special caret_special by auto
    then show ?thesis using False by (simp add: escapeRegExp_def ih)
  qed
qed

lemma parse_anchored:
  "parse_pattern (caret # escapeRegExp s) = Some (Bol # map Lit s)"
  using caret_not_backslash by (simp add: parse_escapeRegExp)

lemma match_here_literals:
  "match_here rt True ml (map Lit p) prev s =
     (\<exists>t vs. s = t @ vs \<and> list_all2 (same_letter rt) p t)"
proof (induction p arbitrary: prev s)
  case Nil
  then show ?case by simp
next
  case (Cons c p)
  show ?case
  proof (cases s)
    case Nil
    then show ?thesis by simp
  next
    case (Cons d s')
    have "(\<exists>t vs. d # s' = t @ vs \<and> list_all2 (same_letter rt) (c # p) t) =
          (same_letter rt c d \<and> (\<exists>t vs. s' = t @ vs \<and> list_all2 (same_letter rt) p t))"
      by (auto simp: list_all2_Cons1 Cons_eq_append_conv)
    then show ?thesis
      using Cons Cons.IH [of "Some d" s'] by simp
  qed
qed

text \<open>
  A search succeeds exactly when the pattern matches at some position of the text, the
  character before the position being the one the assertion \<open>^\<close> looks at.
\<close>

lemma search_positions:
  "search rt ci ml ats prev s =
     (\<exists>us rest. s = us @ rest \<and>
        match_here rt ci ml ats (if us = [] then prev else Some (last us)) rest)"
proof (induction s arbitrary: prev)
  case Nil
  then show ?case by simp
next
  case (Cons x s)
  let ?P = "\<lambda>pv t us rest. t = us @ rest \<and>
        match_here rt ci ml ats (if us = [] then pv else Some (last us)) rest"
  have "(\<exists>us rest. ?P prev (x # s) us rest) =
        (match_here rt ci ml ats prev (x # s) \<or> (\<exists>us rest. ?P (Some x) s us rest))"
    (is "?L = (?A \<or> ?B)")
  proof
    assume ?L
    then obtain us rest where p: "?P prev (x # s) us rest" by blast
    show "?A \<or> ?B"
    proof (cases us)
      case Nil
      then show ?thesis using p by auto
    next
      case (Cons y us')
      then have "?P (Some x) s us' rest" using p by (auto split: if_splits)
      then show ?thesis by blast
    qed
  next
    assume "?A \<or> ?B"
    then show ?L
    proof
      assume ?A
      then have "?P prev (x # s) [] (x # s)" by simp
      then show ?L by blast
    next
      assume ?B
      then obtain us rest where p: "?P (Some x) s us rest" by blast
      then have "?P prev (x # s) (x # us) rest" by (auto split: if_splits)
      then show ?L by blast
    qed
  qed
  then show ?case using Cons.IH [of "Some x"] by simp
qed

lemma split_twice:
  "(\<exists>us rest. s = us @ rest \<and> A us \<and> (\<exists>t vs. rest = t @ vs \<and> B t)) =
   (\<exists>us t vs. s = us @ t @ vs \<and> B t \<and> A us)"
proof
  assume "\<exists>us rest. s = us @ rest \<and> A us \<and> (\<exists>t vs. rest = t @ vs \<and> B t)"
  then obtain us rest t vs where "s = us @ rest" "A us" "rest = t @ vs" "B t"
    by blast
  then have "s = us @ t @ vs \<and> B t \<and> A us" by simp
  then show "\<exists>us t vs. s = us @ t @ vs \<and> B t \<and> A us" by blast
next
  assume "\<exists>us t vs. s = us @ t @ vs \<and> B t \<and> A us"
  then obtain us t vs where h: "s = us @ t @ vs" "B t" "A us"
    by blast
  then have "s = us @ (t @ vs) \<and> A us \<and> (\<exists>t' vs'. t @ vs = t' @ vs' \<and> B t')"
    by blast
  then show "\<exists>us rest. s = us @ rest \<and> A us \<and> (\<exists>t vs. rest = t @ vs \<and> B t)"
    by blast
qed

lemma search_literals:
  "search rt True ml (map Lit p) None s =
     (\<exists>us t vs. s = us @ t @ vs \<and> list_all2 (same_letter rt) p t)"
  using split_twice [of s "\<lambda>us. True" "list_all2 (same_letter rt) p"]
  unfolding search_positions match_here_literals by simp

lemma search_anchored:
  "search rt True True (Bol # map Lit p) None s =
     (\<exists>us t vs. s = us @ t @ vs \<and> list_all2 (same_letter rt) p t \<and>
        (us = [] \<or> line_break rt (last us)))"
proof -
  have "match_here rt True True (Bol # map Lit p) (if us = [] then None else Some (last us)) rest =
        ((us = [] \<or> line_break rt (last us)) \<and>
         (\<exists>t vs. rest = t @ vs \<and> list_all2 (same_letter rt) p t))" for us rest
    using match_here_literals [of rt True p _ rest] by simp
  then show ?thesis
    using split_twice [of s "\<lambda>us. us = [] \<or> line_break rt (last us)"
        "list_all2 (same_letter rt) p"]
    unfolding search_positions by simp
qed

lemma caseless_prefix_iff:
  "caseless_prefix same p t = (\<exists>t' vs. t = t' @ vs \<and> list_all2 same p t')"
proof
  assume "caseless_prefix same p t"
  then have "t = take (length p) t @ drop (length p) t \<and> list_all2 same p (take (length p) t)"
    by (simp add: caseless_prefix_def)
  then show "\<exists>t' vs. t = t' @ vs \<and> list_all2 same p t'" by blast
next
  assume "\<exists>t' vs. t = t' @ vs \<and> list_all2 same p t'"
  then obtain t' vs where h: "t = t' @ vs" "list_all2 same p t'" by blast
  then have "length p = length t'" by (simp add: list_all2_lengthD)
  then show "caseless_prefix same p t"
    using h by (simp add: caseless_prefix_def)
qed

lemma caseless_infix_iff:
  "caseless_infix same p t = (\<exists>us t' vs. t = us @ t' @ vs \<and> list_all2 same p t')"
proof
  assume "caseless_infix same p t"
  then obtain k where "caseless_prefix same p (drop k t)"
    unfolding caseless_infix_def list_ex_iff by blast
  then obtain t' vs where "drop k t = t' @ vs" "list_all2 same p t'"
    by (auto simp: caseless_prefix_iff)
  then have "t = take k t @ t' @ vs \<and> list_all2 same p t'"
    by (metis append_take_drop_id)
  then show "\<exists>us t' vs. t = us @ t' @ vs \<and> list_all2 same p t'" by blast
next
  assume "\<exists>us t' vs. t = us @ t' @ vs \<and> list_all2 same p t'"
  then obtain us t' vs where h: "t = us @ t' @ vs" "list_all2 same p t'" by blast
  then have "caseless_prefix same p (drop (length us) t)"
    by (auto simp: caseless_prefix_iff)
  moreover have "length us \<in> set [0 ..< Suc (length t)]"
    using h(1) by simp
  ultimately show "caseless_infix same p t"
    unfolding caseless_infix_def list_ex_iff by blast
qed

lemma title_matches_unfold:
  assumes "q \<noteq> []"
  shows "title_matches rt q cdoc =
     Some (search rt True True
       (if js_length (chars_of rt q) \<ge> 2 then map Lit (toLowerCase rt (chars_of rt q))
        else Bol # map Lit (toLowerCase rt (chars_of rt q)))
       None (chars_of rt (title cdoc)))"
  using assms
  by (simp add: title_matches_def title_regex_def regex_test_def parse_escapeRegExp
      parse_anchored del: parse_pattern.simps search.simps match_here.simps)

text \<open>
  Claim C8, as amended. For every non-empty query \<open>q\<close> the title filter is a pattern of
  the modelled kind, and its match is case-insensitive: the characters of the lower-cased
  query are compared with those of the title by the engine's comparison under flag
  \<open>i\<close>. If \<open>q.length\<close>, in UTF-16 code units, is at least 2, the query matches a course
  if and only if it occurs somewhere in the title. Otherwise, for a query of one
  character, it matches if and only if it occurs at the start of the title or right after
  a line break in it (the pattern is \<open>^\<close> and the query, with flag \<open>m\<close>); for a title
  without line break, if and only if the title starts with it, which is then the rule
  of the spec.
\<close>

theorem title_search_matches:
  assumes "q \<noteq> []"
  shows "title_matches rt q cdoc =
     Some (\<exists>us t vs. chars_of rt (title cdoc) = us @ t @ vs \<and>
             list_all2 (same_letter rt) (toLowerCase rt (chars_of rt q)) t \<and>
             (js_length (chars_of rt q) \<ge> 2 \<or> us = [] \<or> line_break rt (last us))) \<and>
   (\<not> list_ex (line_break rt) (chars_of rt (title cdoc)) \<longrightarrow>
      title_matches rt q cdoc = Some (spec_title_match rt q (title cdoc)))"
proof (intro conjI impI)
  let ?L = "toLowerCase rt (chars_of rt q)"
  let ?T = "chars_of rt (title cdoc)"
  show main: "title_matches rt q cdoc =
     Some (\<exists>us t vs. ?T = us @ t @ vs \<and> list_all2 (same_letter rt) ?L t \<and>
             (js_length (chars_of rt q) \<ge> 2 \<or> us = [] \<or> line_break rt (last us)))"
  proof (cases "js_length (chars_of rt q) \<ge> 2")
    case True
    then show ?thesis
      by (simp add: title_matches_unfold [OF assms] search_literals)
  next
    case False
    then show ?thesis
      by (simp add: title_matches_unfold [OF assms] search_anchored)
  qed
  assume nb: "\<not> list_ex (line_break rt) ?T"
  show "title_matches rt q cdoc = Some (spec_title_match rt q (title cdoc))"
  proof (cases "js_length (chars_of rt q) \<ge> 2")
    case True
    then show ?thesis
      by (simp add: main spec_title_match_def caseless_infix_iff)
  next
    case False
    have start: "us = []"
      if "?T = us @ t @ vs" "us = [] \<or> line_break rt (last us)" for us t vs
    proof (rule ccontr)
      assume ne: "us \<noteq> []"
      then have "last us \<in> set ?T" using that(1) by simp
      then show False using that(2) ne nb by (auto simp: list_ex_iff)
    qed
    have "(\<exists>us t vs. ?T = us @ t @ vs \<and> list_all2 (same_letter rt) ?L t \<and>
             (us = [] \<or> line_break rt (last us))) =
          (\<exists>t vs. ?T = t @ vs \<and> list_all2 (same_letter rt) ?L t)"
    proof
      assume "\<exists>us t vs. ?T = us @ t @ vs \<and> list_all2 (same_letter rt) ?L t \<and>
             (us = [] \<or> line_break rt (last us))"
      then obtain us t vs where h: "?T = us @ t @ vs" "list_all2 (same_letter rt) ?L t"
        "us = [] \<or> line_break rt (last us)" by blast
      from start [OF h(1) h(3)] h show "\<exists>t vs. ?T = t @ vs \<and> list_all2 (same_letter rt) ?L t"
        by auto
    next
      assume "\<exists>t vs. ?T = t @ vs \<and> list_all2 (same_letter rt) ?L t"
      then obtain t vs where "?T = [] @ t @ vs" "list_all2 (same_letter rt) ?L t" by auto
      then show "\<exists>us t vs. ?T = us @ t @ vs \<and> list_all2 (same_letter rt) ?L t \<and>
             (us = [] \<or> line_break rt (last us))" by blast
    qed
    then show ?thesis
      using False by (simp add: main spec_title_match_def caseless_prefix_iff)
  qed
qed

text \<open>The characters of the examples, in the instance of the runtime.\<close>

lemma example_chars:
  "chars_of example_runtime (title two_line_course) = [0x78, 0x0A, 0x41, 0x62]"
  "chars_of example_runtime ''a'' = [0x61]"
  "chars_of example_runtime (title cjk_course) = [0x7B97, 0x6570]"
  "chars_of example_runtime cjk_query = [0x6570]"
  by (simp_all add: example_runtime_def two_line_course_def cjk_course_def cjk_query_def)

lemma example_letters:
  "toLowerCase example_runtime [0x61] = [0x61]"
  "toLowerCase example_runtime [0x6570] = [0x6570]"
  "same_letter example_runtime 0x61 0x41"
  "line_break example_runtime 0x0A"
  "\<not> line_break example_runtime 0x7B97"
  "\<not> line_break example_runtime 0x6570"
  "\<not> same_letter example_runtime 0x6570 0x7B97"
  "\<not> same_letter example_runtime 0x61 0x78"
  by (simp_all add: example_runtime_def ascii_lower_def)

text \<open>
  The query \<open>a\<close> on the two-line title, and the query of the single character U+6570
  on the title U+7B97 U+6570: the query has length 1, the pattern is anchored, and the
  title, which contains the character but does not start with it, does not match.
\<close>

theorem title_search_matches_witness:
  "title_matches example_runtime ''a'' two_line_course = Some True \<and>
   title_matches example_runtime cjk_query cjk_course = Some False"
proof -
  have q1: "''a'' \<noteq> []" by simp
  have q2: "cjk_query \<noteq> []" by (simp add: cjk_query_def)
  have "chars_of example_runtime (title two_line_course) = [0x78, 0x0A] @ [0x41] @ [0x62] \<and>
      list_all2 (same_letter example_runtime)
        (toLowerCase example_runtime (chars_of example_runtime ''a'')) [0x41] \<and>
      (js_length (chars_of example_runtime ''a'') \<ge> 2 \<or> [0x78, 0x0A] = ([] :: nat list) \<or>
       line_break example_runtime (last [0x78, 0x0A]))"
    by (simp add: example_chars example_letters)
  then have "\<exists>us t vs. chars_of example_runtime (title two_line_course) = us @ t @ vs \<and>
      list_all2 (same_letter example_runtime)
        (toLowerCase example_runtime (chars_of example_runtime ''a'')) t \<and>
      (js_length (chars_of example_runtime ''a'') \<ge> 2 \<or> us = [] \<or>
       line_break example_runtime (last us))"
    by blast
  then have a: "title_matches example_runtime ''a'' two_line_course = Some True"
    by (simp only: title_search_matches [OF q1, THEN conjunct1])
  have nb: "\<not> list_ex (line_break example_runtime) (chars_of example_runtime (title cjk_course))"
    by (simp add: example_chars example_letters)
  have "\<not> spec_title_match example_runtime cjk_query (title cjk_course)"
    by (simp add: spec_title_match_def example_chars example_letters js_length_def
        caseless_prefix_def)
  then have b: "title_matches example_runtime cjk_query cjk_course = Some False"
    by (simp only: title_search_matches [OF q2, THEN conjunct2, rule_format, OF nb])
  show ?thesis using a b by simp
qed

text \<open>
  The query \<open>a\<close> matches the two-line title, at the start of its second line, although
  the title does not start with that character.
\<close>

theorem title_search_single_char_counterexample:
  "title_matches example_runtime ''a'' two_line_course = Some True \<and>
   \<not> spec_title_match example_runtime ''a'' (title two_line_course)"
proof -
  have "title_matches example_runtime ''a'' two_line_course = Some True"
    by (simp add: title_matches_def title_regex_def regex_test_def escapeRegExp_def
        regExpChars_def backslash_def caret_def js_length_def example_chars example_letters)
  moreover have "\<not> spec_title_match example_runtime ''a'' (title two_line_course)"
    by (simp add: spec_title_match_def example_chars example_letters js_length_def
        caseless_prefix_def)
  ultimately show ?thesis by simp
qed

section \<open>A course without an assign field\<close>

text \<open>
  Claim C9, as amended. The public branch \<open>{ assign: { $size: 0 } }\<close> matches exactly the
  courses whose \<open>assign\<close> field is present and empty. For a viewer who is not owner,
  maintainer or teacher, shares no group with the course and gives no group filter, a
  course with an absent \<open>assign\<close> matches no branch of the list filter, so for such a
  viewer without the view-hidden permission the course is never listed, whatever the
  title search; yet \<open>prepare\<close> of the detail handler lets every viewer through when
  \<open>assign\<close> is absent or empty.
\<close>

theorem absent_assign_unlisted_but_reachable:
  "matches (Size F_assign 0) cdoc = (assign cdoc = Some []) \<and>
   (assign cdoc = None \<and> owner cdoc \<noteq> user_id user
      \<and> user_id user \<notin> set (opt_list (maintainer cdoc))
      \<and> user_id user \<notin> set (opt_list (teachers cdoc))
      \<and> set (opt_list (classes cdoc)) \<inter> set (list_groups user listGroup) = {} \<longrightarrow>
        \<not> list_ex (\<lambda>c. matches c cdoc) (accessConditions user (list_groups user listGroup) []) \<and>
        (\<not> hasPerm user PERM_VIEW_HIDDEN_HOMEWORK \<longrightarrow>
           \<not> main_query_matches rt user listGroup q [] cdoc)) \<and>
   (opt_list (assign cdoc) = [] \<longrightarrow> detail_prepare own listGroup user (Some cdoc) = Inr cdoc)"
proof -
  have size: "matches (Size F_assign 0) cdoc = (assign cdoc = Some [])"
    by (rule matches_Size_assign)
  have detail: "opt_list (assign cdoc) = [] \<longrightarrow>
      detail_prepare own listGroup user (Some cdoc) = Inr cdoc"
    by (simp add: detail_prepare_def)
  have none: "\<not> list_ex (\<lambda>c. matches c cdoc) (accessConditions user gs [])"
    if "assign cdoc = None" "owner cdoc \<noteq> user_id user"
      "user_id user \<notin> set (opt_list (maintainer cdoc))"
      "user_id user \<notin> set (opt_list (teachers cdoc))"
      "set (opt_list (classes cdoc)) \<inter> set gs = {}" for gs
    using that
    by (simp add: accessConditions_def matches_Is_simps matches_In_simps matches_Size_assign
        opt_list_def del: matches.simps)
  show ?thesis
    using size detail none [of "list_groups user listGroup"]
    by (auto simp: main_query_matches_def access_query_def matches_or_def)
qed

text \<open>The course without \<open>assign\<close>, and a viewer in group A who holds no grant on it.\<close>

theorem absent_assign_unlisted_but_reachable_witness:
  "\<not> main_query_matches example_runtime \<lparr>user_id = 5, hasPerm = (\<lambda>p. False)\<rparr>
       (\<lambda>u. [''A'']) [] [] unassigned_course \<and>
   detail_prepare (\<lambda>u c. False) (\<lambda>u. [''A'']) \<lparr>user_id = 5, hasPerm = (\<lambda>p. False)\<rparr>
       (Some unassigned_course) = Inr unassigned_course"
  using absent_assign_unlisted_but_reachable [where cdoc = unassigned_course
      and user = "\<lparr>user_id = 5, hasPerm = (\<lambda>p. False)\<rparr>" and listGroup = "\<lambda>u. [''A'']"
      and own = "\<lambda>u c. False" and q = "[]" and rt = example_runtime]
  by (simp add: unassigned_course_def opt_list_def)

text \<open>
  The same course and a viewer who holds the view-hidden permission: the viewer is not
  owner, maintainer or teacher, shares no group with the course and gives no group
  filter, and the course is listed, since the handler then sets no access condition.
\<close>

theorem absent_assign_listed_with_permission_counterexample:
  "assign unassigned_course = None \<and>
   owner unassigned_course \<noteq> 5 \<and>
   5 \<notin> set (opt_list (maintainer unassigned_course)) \<and>
   5 \<notin> set (opt_list (teachers unassigned_course)) \<and>
   set (opt_list (classes unassigned_course)) \<inter>
     set (list_groups \<lparr>user_id = 5, hasPerm = (\<lambda>p. True)\<rparr> (\<lambda>u. [''A''])) = {} \<and>
   main_query_matches example_runtime \<lparr>user_id = 5, hasPerm = (\<lambda>p. True)\<rparr>
     (\<lambda>u. [''A'']) [] [] unassigned_course"
  by (simp add: unassigned_course_def opt_list_def main_query_matches_def
      title_matches_no_query access_query_def matches_or_def)

section \<open>Phases partition time\<close>

text \<open>
  Claim C10. For every course document with \<open>beginAt < endAt\<close> and every instant \<open>now\<close>,
  exactly one of \<open>isNotStarted\<close>, \<open>isOngoing\<close> and \<open>isDone\<close> holds; \<open>isNotStarted\<close> is
  \<open>now < beginAt\<close>, \<open>isOngoing\<close> is \<open>beginAt \<le> now < endAt\<close>, \<open>isDone\<close> is
  \<open>endAt \<le> now\<close>; the instant \<open>beginAt\<close> is in the ongoing phase and the instant
  \<open>endAt\<close> in the done phase.
\<close>

theorem phases_exactly_one:
  assumes "beginAt cdoc < endAt cdoc"
  shows "length (filter id [isNotStarted cdoc now, isOngoing cdoc now, isDone cdoc now]) = 1
    \<and> isNotStarted cdoc now = (now < beginAt cdoc)
    \<and> isOngoing cdoc now = (beginAt cdoc \<le> now \<and> now < endAt cdoc)
    \<and> isDone cdoc now = (endAt cdoc \<le> now)
    \<and> isOngoing cdoc (beginAt cdoc)
    \<and> isDone cdoc (endAt cdoc)"
  using assms by (auto simp: isNotStarted_def isOngoing_def isDone_def)

text \<open>A course of January 2024 at the instant it begins.\<close>

theorem phases_exactly_one_witness:
  "length (filter id
     [isNotStarted \<lparr>docId = 1, domainId = ''system'', owner = 2, maintainer = None,
        title = ''Algebra'', content = ''Intro'', beginAt = 1704067200000,
        endAt = 1706659200000, attend = 0, pids = [], files = None, assign = None,
        classes = None, teachers = None\<rparr> 1704067200000,
      isOngoing \<lparr>docId = 1, domainId = ''system'', owner = 2, maintainer = None,
        title = ''Algebra'', content = ''Intro'', beginAt = 1704067200000,
        endAt = 1706659200000, attend = 0, pids = [], files = None, assign = None,
        classes = None, teachers = None\<rparr> 1704067200000,
      isDone \<lparr>docId = 1, domainId = ''system'', owner = 2, maintainer = None,
        title = ''Algebra'', content = ''Intro'', beginAt = 1704067200000,
        endAt = 1706659200000, attend = 0, pids = [], files = None, assign = None,
        classes = None, teachers = None\<rparr> 1704067200000]) = 1"
  using phases_exactly_one [of "\<lparr>docId = 1, domainId = ''system'', owner = 2,
        maintainer = None, title = ''Algebra'', content = ''Intro'',
        beginAt = 1704067200000, endAt = 1706659200000, attend = 0, pids = [],
        files = None, assign = None, classes = None, teachers = None\<rparr>" 1704067200000]
  by simp

end
